theory Spec2Isabelle
  imports Main "HOL-Library.Multiset"
begin

section \<open>Values and exceptions\<close>

text \<open>
  The program is \<^verbatim>\<open>src/cleaner/clickhouse_cleaner.py\<close>. It reads rows of the table
  \<^verbatim>\<open>system.mutations\<close> as Python dictionaries parsed from JSON. A JSON value is a
  \<open>pyval\<close>; floating point numbers are left out of the model.
\<close>

datatype pyval = PNone | PBool bool | PInt int | PStr string | PList "pyval list"

text \<open>
  A row is a dictionary, kept as an association list that \<open>map_of\<close> reads.
  \<^verbatim>\<open>i.get(k)\<close> is \<open>None\<close> when the key is absent.
\<close>

type_synonym row = "(string \<times> pyval) list"

definition get :: "row \<Rightarrow> string \<Rightarrow> pyval" where
  "get i k = (case map_of i k of None \<Rightarrow> PNone | Some v \<Rightarrow> v)"

text \<open>
  Every \<^verbatim>\<open>raise RuntimeError(...)\<close> of the source is one constructor of
  \<open>runtime_error\<close>, holding the values its message is formatted from.
\<close>

datatype runtime_error =
    QueryFailed string nat string  \<comment> \<open>\<^verbatim>\<open>execute_sql\<close>: expression, HTTP status code, response text\<close>
  | TableRequired
  | PrefixRequired
  | FlagsConflict

datatype exn =
    RuntimeError runtime_error
  | TypeError
  | ValueError
  | KeyError
  | JSONDecodeError
  | AttributeError
  | ConnectionError
  | EOFError

subsection \<open>The built-ins \<^verbatim>\<open>int\<close>, \<^verbatim>\<open>==\<close> and \<^verbatim>\<open>!=\<close>\<close>

text \<open>
  The whitespace \<^verbatim>\<open>int\<close> drops around a number: the ASCII whitespace (tab to carriage
  return, and the space) and, of the code points below 256, U+0085 and U+00A0. The
  separators U+001C to U+001F are not dropped: \<^verbatim>\<open>int\<close> raises \<open>ValueError\<close> on them.
\<close>

definition is_space :: "char \<Rightarrow> bool" where
  "is_space c = (of_char c \<in> {9, 10, 11, 12, 13, 32, 133, 160 :: nat})"

definition is_digit :: "char \<Rightarrow> bool" where
  "is_digit c = (48 \<le> (of_char c :: nat) \<and> (of_char c :: nat) \<le> 57)"

definition digit_val :: "char \<Rightarrow> int" where
  "digit_val c = int (of_char c) - 48"

text \<open>
  The digits of a decimal literal after its first digit: a single underscore may stand
  between two digits.
\<close>

fun parse_digits :: "string \<Rightarrow> int \<Rightarrow> int option" where
  "parse_digits [] acc = Some acc"
| "parse_digits [c] acc = (if is_digit c then Some (acc * 10 + digit_val c) else None)"
| "parse_digits (c # d # ds) acc =
     (if is_digit c then parse_digits (d # ds) (acc * 10 + digit_val c)
      else if c = CHR ''_'' \<and> is_digit d then parse_digits ds (acc * 10 + digit_val d)
      else None)"

text \<open>
  \<^verbatim>\<open>int(s)\<close> on a string: surrounding whitespace is dropped, then an optional sign and
  a non-empty decimal literal must fill the rest. (The limit on the number of digits of
  recent interpreters and digits outside ASCII are not modelled.)
\<close>

definition parse_int :: "string \<Rightarrow> int option" where
  "parse_int s =
     (let t = rev (dropWhile is_space (rev (dropWhile is_space s)));
          sgn = (if take 1 t = ''-'' then - 1 else 1);
          body = (if take 1 t = ''-'' \<or> take 1 t = ''+'' then drop 1 t else t)
      in case body of
           [] \<Rightarrow> None
         | d # ds \<Rightarrow> if is_digit d then map_option (\<lambda>n. sgn * n) (parse_digits ds (digit_val d))
                     else None)"

fun py_int :: "pyval \<Rightarrow> exn + int" where
  "py_int (PInt n) = Inr n"
| "py_int (PBool b) = Inr (if b then 1 else 0)"
| "py_int (PStr s) = (case parse_int s of None \<Rightarrow> Inl ValueError | Some n \<Rightarrow> Inr n)"
| "py_int PNone = Inl TypeError"
| "py_int (PList xs) = Inl TypeError"

text \<open>\<^verbatim>\<open>v == 1\<close>: the integer one and \<^verbatim>\<open>True\<close> are equal to one, nothing else is.\<close>

fun eq_one :: "pyval \<Rightarrow> bool" where
  "eq_one (PInt n) = (n = 1)"
| "eq_one (PBool b) = b"
| "eq_one _ = False"

text \<open>\<^verbatim>\<open>v != ""\<close>: only the empty string is equal to the empty string.\<close>

fun ne_empty_str :: "pyval \<Rightarrow> bool" where
  "ne_empty_str (PStr s) = (s \<noteq> [])"
| "ne_empty_str _ = True"

section \<open>Mutation Tracker: \<^verbatim>\<open>mutation_status\<close>\<close>

text \<open>
  \<^verbatim>\<open>[i for i in data if int(i.get("parts_to_do")) > 0]\<close>: the comprehension converts the
  field of each row in order and raises at the first row whose field does not convert.
\<close>

fun in_progress_rows :: "row list \<Rightarrow> exn + row list" where
  "in_progress_rows [] = Inr []"
| "in_progress_rows (i # data) =
     (case py_int (get i ''parts_to_do'') of
        Inl e \<Rightarrow> Inl e
      | Inr n \<Rightarrow>
          (case in_progress_rows data of
             Inl e \<Rightarrow> Inl e
           | Inr acc \<Rightarrow> Inr (if n > 0 then i # acc else acc)))"

text \<open>The tuple is \<open>(in_progress, total, completed, failed)\<close>.\<close>

type_synonym summary = "nat \<times> nat \<times> nat \<times> nat"

definition mutation_status :: "row list \<Rightarrow> exn + summary" where
  "mutation_status data =
     (case in_progress_rows data of
        Inl e \<Rightarrow> Inl e
      | Inr rows \<Rightarrow>
          (let in_progress = length rows;
               total = length data;
               completed = length (filter (\<lambda>i. eq_one (get i ''is_done'')) data);
               failed = length (filter (\<lambda>i. ne_empty_str (get i ''latest_failed_part'')) data)
           in Inr (in_progress, total, completed, failed)))"

section \<open>The outside world\<close>

text \<open>
  The program talks to three things: the ClickHouse server (one HTTP POST per
  statement), the operator's terminal (\<^verbatim>\<open>print\<close> and \<^verbatim>\<open>input\<close>) and the clock
  (\<^verbatim>\<open>time.sleep\<close>, today's date). The world holds what they will answer and the
  trace of what the program did, in order.
\<close>

datatype json_body =
    Malformed            \<comment> \<open>the response text is not JSON: \<^verbatim>\<open>r.json()\<close> raises\<close>
  | NoData               \<comment> \<open>a JSON object with no \<^verbatim>\<open>"data"\<close> member\<close>
  | Data "row list"      \<comment> \<open>a JSON object whose \<^verbatim>\<open>"data"\<close> member is a list of rows\<close>

datatype response =
  Response (resp_ok: bool) (resp_status_code: nat) (resp_text: string) (resp_json: json_body)

datatype reply = Refused | Reply response

text \<open>What \<^verbatim>\<open>execute_sql\<close> returns: the rows, the flag \<^verbatim>\<open>status\<close>, or the response text.\<close>

datatype sql_result = Rows "row list" | Flag bool | Text string

fun truthy :: "sql_result \<Rightarrow> bool" where
  "truthy (Rows rs) = (rs \<noteq> [])"
| "truthy (Flag b) = b"
| "truthy (Text s) = (s \<noteq> [])"

text \<open>
  What is printed, one constructor for each \<^verbatim>\<open>print\<close> of the source, holding the values
  the line is formatted from (colours and layout are not modelled).
\<close>

datatype printed =
    DeleteOk string                       \<comment> \<open>metadata, then \<^verbatim>\<open>- OK\<close>\<close>
  | DeleteWrong string                    \<comment> \<open>\<^verbatim>\<open>Something went wrong... [metadata]\<close>\<close>
  | ErrorText runtime_error               \<comment> \<open>the caught \<^verbatim>\<open>RuntimeError\<close>, in red\<close>
  | StartedMutation string string string string  \<comment> \<open>key, prefix, database, table\<close>
  | NoMatches string                      \<comment> \<open>prefix\<close>
  | MatchesFound string nat "pyval list"  \<comment> \<open>prefix, unique keys count, the matches\<close>
  | Canceled string                       \<comment> \<open>prefix\<close>
  | Waiting
  | MutationFailed
  | StatusHeader string string            \<comment> \<open>database, table\<close>
  | Rule
  | StatusPretty nat nat                  \<comment> \<open>In Progress, Failed\<close>
  | StatusFull nat nat nat nat            \<comment> \<open>In Progress, Completed, Failed, Total\<close>
  | ForceHint

datatype event =
    Post string      \<comment> \<open>the \<^verbatim>\<open>query\<close> parameter of the request\<close>
  | Print printed
  | Input            \<comment> \<open>the confirmation prompt, and one line read\<close>
  | Sleep

text \<open>An answer typed by the operator is a list of Unicode code points.\<close>

type_synonym ustr = "nat list"

record world =
  replies :: "reply list"    \<comment> \<open>what the server answers to the next requests\<close>
  answers :: "ustr list"     \<comment> \<open>the lines the operator will type\<close>
  today :: string            \<comment> \<open>\<^verbatim>\<open>datetime.today().strftime("%Y-%m-%d")\<close>\<close>
  trace :: "event list"

definition emit :: "event \<Rightarrow> world \<Rightarrow> world" where
  "emit e w = w\<lparr>trace := trace w @ [e]\<rparr>"

text \<open>An f-string prints \<^verbatim>\<open>None\<close> for a value that is \<^verbatim>\<open>None\<close>.\<close>

fun fmt :: "string option \<Rightarrow> string" where
  "fmt None = ''None''"
| "fmt (Some s) = s"

definition quote :: string where
  "quote = [CHR 0x27]"

section \<open>Database Client: \<^verbatim>\<open>execute_sql\<close>\<close>

text \<open>
  One POST. The request always ends in \<^verbatim>\<open>FORMAT JSON\<close>. A server that does not answer
  (or a script of replies that has run out) raises \<open>ConnectionError\<close>, which is not a
  \<open>RuntimeError\<close>; a response that is not \<^verbatim>\<open>ok\<close> raises \<open>RuntimeError\<close>.
\<close>

definition execute_sql :: "string \<Rightarrow> string \<Rightarrow> world \<Rightarrow> (exn + sql_result) \<times> world" where
  "execute_sql expression result_format w =
     (let w1 = emit (Post (expression @ '' FORMAT JSON'')) w in
      case replies w of
        [] \<Rightarrow> (Inl ConnectionError, w1)
      | Refused # rs \<Rightarrow> (Inl ConnectionError, w1\<lparr>replies := rs\<rparr>)
      | Reply r # rs \<Rightarrow>
          (let w2 = w1\<lparr>replies := rs\<rparr>;
               status = resp_ok r
           in if \<not> resp_ok r then
                (Inl (RuntimeError (QueryFailed expression (resp_status_code r) (resp_text r))), w2)
              else if result_format = ''json'' then
                (case resp_json r of
                   Malformed \<Rightarrow> (Inl JSONDecodeError, w2)
                 | NoData \<Rightarrow> (Inr (Flag status), w2)
                 | Data rows \<Rightarrow> (Inr (Rows rows), w2))
              else (Inr (if resp_text r \<noteq> [] then Text (resp_text r) else Flag status), w2)))"

section \<open>Query Builder and the two statements\<close>

definition search_query :: "string \<Rightarrow> string option \<Rightarrow> string option \<Rightarrow> string \<Rightarrow> string" where
  "search_query prefix key database table =
     ''SELECT DISTINCT '' @ fmt key @ '' '' @
     ''FROM '' @ fmt database @ ''.'' @ table @ '' '' @
     ''WHERE match('' @ fmt key @ '', '' @ quote @ ''^'' @ prefix @ quote @ '')''"

definition delete_query :: "string \<Rightarrow> string option \<Rightarrow> string option \<Rightarrow> string \<Rightarrow> string" where
  "delete_query prefix key database table =
     ''ALTER TABLE '' @ fmt database @ ''.'' @ table @
     '' DELETE WHERE match('' @ fmt key @ '', '' @ quote @ ''^'' @ prefix @ quote @ '')''"

definition mutations_query :: "string option \<Rightarrow> string \<Rightarrow> string \<Rightarrow> string" where
  "mutations_query database table day =
     ''SELECT * FROM system.mutations '' @
     ''WHERE database='' @ quote @ fmt database @ quote @ '' '' @
     ''AND table='' @ quote @ table @ quote @ '' AND toDate(create_time) = '' @ quote @ day @ quote"

text \<open>\<^verbatim>\<open>[record[key] for record in rows]\<close>: a row without the key raises \<open>KeyError\<close>.\<close>

fun keys_of :: "string option \<Rightarrow> row list \<Rightarrow> exn + pyval list" where
  "keys_of key [] = Inr []"
| "keys_of key (record # rows) =
     (case (case key of None \<Rightarrow> None | Some k \<Rightarrow> map_of record k) of
        None \<Rightarrow> Inl KeyError
      | Some v \<Rightarrow> (case keys_of key rows of Inl e \<Rightarrow> Inl e | Inr vs \<Rightarrow> Inr (v # vs)))"

text \<open>Iterating over what \<^verbatim>\<open>execute_sql\<close> returned: a flag is not iterable, the
  characters of a text cannot be indexed by a key.\<close>

fun select_keys :: "string option \<Rightarrow> sql_result \<Rightarrow> exn + pyval list" where
  "select_keys key (Rows rows) = keys_of key rows"
| "select_keys key (Flag b) = Inl TypeError"
| "select_keys key (Text s) = (if s = [] then Inr [] else Inl TypeError)"

text \<open>
  \<^verbatim>\<open>get_data\<close> returns the message and the matches. The matches are the lines
  \<^verbatim>\<open>- path\<close> joined by newlines, kept here as the list of the paths: the joined string is
  empty exactly when the list is, and then \<^verbatim>\<open>matches\<close> is \<^verbatim>\<open>None\<close>.
\<close>

definition get_data ::
  "string \<Rightarrow> string option \<Rightarrow> string option \<Rightarrow> string \<Rightarrow> world
   \<Rightarrow> (exn + printed \<times> pyval list option) \<times> world" where
  "get_data prefix key database table w =
     (case execute_sql (search_query prefix key database table) ''json'' w of
        (Inl e, w1) \<Rightarrow> (Inl e, w1)
      | (Inr res, w1) \<Rightarrow>
          (case select_keys key res of
             Inl e \<Rightarrow> (Inl e, w1)
           | Inr result \<Rightarrow>
               if result = [] then (Inr (NoMatches prefix, None), w1)
               else (Inr (MatchesFound prefix (length result) result, Some result), w1)))"

definition delete_data ::
  "string \<Rightarrow> string option \<Rightarrow> string option \<Rightarrow> string \<Rightarrow> world \<Rightarrow> (exn + unit) \<times> world" where
  "delete_data prefix key database table w =
     (let metadata = ''source='' @ fmt database @ ''.'' @ table @ '' key='' @ fmt key @
                     '', prefix='' @ prefix
      in case execute_sql (delete_query prefix key database table) ''text'' w of
           (Inl e, w1) \<Rightarrow> (Inl e, w1)
         | (Inr res, w1) \<Rightarrow>
             (Inr (), emit (Print (if truthy res then DeleteOk metadata else DeleteWrong metadata)) w1))"

section \<open>Mutation Tracker: \<^verbatim>\<open>check_mutations\<close>\<close>

text \<open>
  \<^verbatim>\<open>mutation_status(result)\<close> on what \<^verbatim>\<open>execute_sql\<close> returned: the flag is not
  iterable, and a character of a text has no \<^verbatim>\<open>get\<close>.
\<close>

fun mutation_status_of :: "sql_result \<Rightarrow> exn + summary" where
  "mutation_status_of (Rows data) = mutation_status data"
| "mutation_status_of (Flag b) = Inl TypeError"
| "mutation_status_of (Text s) = (if s = [] then Inr (0, 0, 0, 0) else Inl AttributeError)"

text \<open>
  The polling loop
  \<^verbatim>\<open>while in_progress != 0 and failed == 0:\<close>
  \<^verbatim>\<open>    result = execute_sql(query)\<close>
  \<^verbatim>\<open>    in_progress, total, success, failed = mutation_status(result)\<close>
  \<^verbatim>\<open>    time.sleep(0.5)\<close>
  on the loop's variables \<open>(in_progress, total_n, failed)\<close>, where \<open>total_n\<close> is the
  source's \<^verbatim>\<open>total\<close>. The third component of the new
  summary goes to the variable \<^verbatim>\<open>success\<close>, which nothing reads. Every turn takes one
  reply of the server, so on a finite script of replies the loop ends: with the summary
  that stops it, or with the exception of a fetch. The source has no timeout: against a
  server that reports work in progress for ever it polls for ever. Such a run has no
  finite script; its first \<open>n\<close> polls are the run on the script of its first \<open>n\<close> replies,
  which ends in \<open>ConnectionError\<close> and never in a result.
\<close>

function await_loop :: "string \<Rightarrow> nat \<times> nat \<times> nat \<Rightarrow> world \<Rightarrow> (exn + nat \<times> nat \<times> nat) \<times> world" where
  "await_loop query (in_progress, total_n, failed) w =
     (if in_progress \<noteq> 0 \<and> failed = 0 then
        (case execute_sql query ''json'' w of
           (Inl e, w1) \<Rightarrow> (Inl e, w1)
         | (Inr result, w1) \<Rightarrow>
             (case mutation_status_of result of
                Inl e \<Rightarrow> (Inl e, w1)
              | Inr (in_progress', total_n', success, failed') \<Rightarrow>
                  await_loop query (in_progress', total_n', failed') (emit Sleep w1)))
      else (Inr (in_progress, total_n, failed), w))"
  by pat_completeness auto
termination
proof (relation "measure (\<lambda>(query, vars, w). length (replies w))")
  show "wf (measure (\<lambda>(query, vars, w). length (replies w)))" by simp
next
  fix query :: string and in_progress total_n failed :: nat and w x1 w1 result y
    and in_progress' total_n' success failed' :: nat and x2 x3 x4
  assume "(x1, w1) = execute_sql query ''json'' w" and "x1 = Inr result"
  then have "length (replies w1) < length (replies w)"
    by (auto simp: execute_sql_def emit_def Let_def
             split: list.splits reply.splits if_splits json_body.splits)
  then show "((query, (in_progress', total_n', failed'), emit Sleep w1), query, (in_progress, total_n, failed), w)
        \<in> measure (\<lambda>(query, vars, w). length (replies w))"
    by (simp add: emit_def)
qed

definition check_mutations :: "string option \<Rightarrow> string \<Rightarrow> bool \<Rightarrow> bool \<Rightarrow> world \<Rightarrow> (exn + unit) \<times> world" where
  "check_mutations database table await_complete pretty w =
     (let query = mutations_query database table (today w) in
      case execute_sql query ''json'' w of
        (Inl e, w1) \<Rightarrow> (Inl e, w1)
      | (Inr result, w1) \<Rightarrow>
          (case mutation_status_of result of
             Inl e \<Rightarrow> (Inl e, w1)
           | Inr (in_progress, total_n, completed, failed) \<Rightarrow>
               (case (if await_complete
                      then await_loop query (in_progress, total_n, failed) (emit (Print Waiting) w1)
                      else (Inr (in_progress, total_n, failed), w1)) of
                  (Inl e, w2) \<Rightarrow> (Inl e, w2)
                | (Inr (in_progress, total_n, failed), w2) \<Rightarrow>
                    (let w3 = (if failed > 0 then emit (Print MutationFailed) w2 else w2);
                         w4 = emit (Print (StatusHeader (fmt database) table)) w3;
                         w5 = emit (Print Rule) w4
                     in (Inr (),
                         emit (Print (if pretty then StatusPretty in_progress failed
                                      else StatusFull in_progress completed failed total_n)) w5)))))"

section \<open>Interactive Workflow: \<^verbatim>\<open>run\<close>\<close>

text \<open>
  \<^verbatim>\<open>input(warning_message)\<close> shows the prompt and reads one line; at the end of the
  input it raises \<open>EOFError\<close>.
\<close>

definition input :: "world \<Rightarrow> (exn + ustr) \<times> world" where
  "input w =
     (case answers w of
        [] \<Rightarrow> (Inl EOFError, emit Input w)
      | a # rest \<Rightarrow> (Inr a, emit Input (w\<lparr>answers := rest\<rparr>)))"

text \<open>
  \<^verbatim>\<open>.lower()\<close> on the code points that can reach an accepted answer: the Latin capitals
  and the Cyrillic capitals. The accepted answers of the source are \<^verbatim>\<open>y\<close>, \<^verbatim>\<open>yes\<close> and
  the Russian words for the same, U+0434 U+0430 and U+0434. No other code point is
  lowered to one of their letters, so the test in \<open>run\<close> is the one of the source.
\<close>

definition lower_cp :: "nat \<Rightarrow> nat" where
  "lower_cp c =
     (if 65 \<le> c \<and> c \<le> 90 then c + 32
      else if 1040 \<le> c \<and> c \<le> 1071 then c + 32
      else if 1024 \<le> c \<and> c \<le> 1039 then c + 80
      else c)"

definition lower :: "ustr \<Rightarrow> ustr" where
  "lower s = map lower_cp s"

definition accepted :: "ustr list" where
  "accepted = [[121], [121, 101, 115], [1076, 1072], [1076]]"

text \<open>\<^verbatim>\<open>except RuntimeError as error: print(Color.make(error, "red"))\<close>\<close>

fun except_RuntimeError :: "(exn + unit) \<times> world \<Rightarrow> (exn + unit) \<times> world" where
  "except_RuntimeError (Inl (RuntimeError err), w) = (Inr (), emit (Print (ErrorText err)) w)"
| "except_RuntimeError (r, w) = (r, w)"

text \<open>Two statements in a row: the second runs when the first did not raise.\<close>

definition and_then ::
  "(exn + unit) \<times> world \<Rightarrow> (world \<Rightarrow> (exn + unit) \<times> world) \<Rightarrow> (exn + unit) \<times> world" where
  "and_then r f = (case r of (Inl e, w) \<Rightarrow> (Inl e, w) | (Inr u, w) \<Rightarrow> f w)"

text \<open>\<^verbatim>\<open>not matches\<close>: \<^verbatim>\<open>None\<close> and the empty string are false.\<close>

fun falsy :: "pyval list option \<Rightarrow> bool" where
  "falsy None = True"
| "falsy (Some ms) = (ms = [])"

text \<open>
  With \<^verbatim>\<open>force_delete\<close>, the \<^verbatim>\<open>return\<close> in the \<^verbatim>\<open>finally\<close> block drops whatever exception
  is in flight.
\<close>

definition run ::
  "string \<Rightarrow> string option \<Rightarrow> string option \<Rightarrow> string \<Rightarrow> bool \<Rightarrow> bool \<Rightarrow> world \<Rightarrow> (exn + unit) \<times> world" where
  "run prefix key database table force_delete await_complete w =
     (if force_delete then
        (let started = Print (StartedMutation (fmt key) prefix (fmt database) table)
         in case except_RuntimeError (delete_data prefix key database table w) of
              (r, w1) \<Rightarrow> (Inr (), emit started w1))
      else
        (case get_data prefix key database table w of
           (Inl e, w1) \<Rightarrow> (Inl e, w1)
         | (Inr (message, matches), w1) \<Rightarrow>
             if falsy matches then (Inr (), emit (Print message) w1)
             else
               (case input (emit (Print message) w1) of
                  (Inl e, w2) \<Rightarrow> (Inl e, w2)
                | (Inr answer, w2) \<Rightarrow>
                    if lower answer \<in> set accepted then
                      except_RuntimeError
                        (and_then (delete_data prefix key database table w2)
                           (check_mutations database table await_complete True))
                    else (Inr (), emit (Print (Canceled prefix)) w2))))"

section \<open>\<^verbatim>\<open>main\<close>\<close>

text \<open>\<^verbatim>\<open>s.split(",")\<close>\<close>

fun split_comma :: "string \<Rightarrow> string list" where
  "split_comma [] = [[]]"
| "split_comma (c # cs) =
     (if c = CHR '','' then [] # split_comma cs
      else (case split_comma cs of
              [] \<Rightarrow> [[c]]
            | part # parts \<Rightarrow> (c # part) # parts))"

text \<open>The parsed command line and the two optional entries of the configuration file.\<close>

record args =
  arg_prefix :: string
  arg_key :: "string option"
  arg_database :: "string option"
  arg_table :: string
  arg_checkout_only :: bool
  arg_await_mutation_end :: bool
  arg_force :: bool

record config =
  cfg_database :: "string option"
  cfg_match_key :: "string option"

text \<open>\<^verbatim>\<open>a or b\<close> on an optional string: \<^verbatim>\<open>None\<close> and the empty string are false.\<close>

fun py_or :: "string option \<Rightarrow> string option \<Rightarrow> string option" where
  "py_or None b = b"
| "py_or (Some s) b = (if s = [] then b else Some s)"

fun for_each :: "('a \<Rightarrow> world \<Rightarrow> (exn + unit) \<times> world) \<Rightarrow> 'a list \<Rightarrow> world \<Rightarrow> (exn + unit) \<times> world" where
  "for_each body [] w = (Inr (), w)"
| "for_each body (x # xs) w = and_then (body x w) (for_each body xs)"

definition main :: "args \<Rightarrow> config \<Rightarrow> world \<Rightarrow> (exn + unit) \<times> world" where
  "main a cfg w =
     (let prefixes = split_comma (arg_prefix a);
          database = py_or (arg_database a) (cfg_database cfg);
          tables = split_comma (arg_table a);
          match_key = py_or (arg_key a) (cfg_match_key cfg);
          await_mutation_end = (if arg_await_mutation_end a then True else False)
      in if arg_table a = [] then (Inl (RuntimeError TableRequired), w)
         else if prefixes = [] \<and> \<not> arg_checkout_only a then (Inl (RuntimeError PrefixRequired), w)
         else if arg_force a \<and> arg_checkout_only a \<or> arg_await_mutation_end a \<and> arg_force a
           then (Inl (RuntimeError FlagsConflict), w)
         else if arg_checkout_only a then
           for_each (\<lambda>table. check_mutations database table False False) tables w
         else
           and_then
             (for_each
                (\<lambda>prefix. for_each
                   (\<lambda>table. run prefix match_key database table (arg_force a) await_mutation_end)
                   tables)
                prefixes w)
             (\<lambda>w1. (Inr (), if arg_force a then emit (Print ForceHint) w1 else w1)))"

section \<open>Reading a run\<close>

text \<open>The events a run added to the trace, and the requests among them.\<close>

definition events_since :: "world \<Rightarrow> world \<Rightarrow> event list" where
  "events_since w w' = drop (length (trace w)) (trace w')"

fun is_post :: "event \<Rightarrow> bool" where
  "is_post (Post q) = True"
| "is_post _ = False"

text \<open>A row whose \<^verbatim>\<open>parts_to_do\<close> converts to an integer greater than zero.\<close>

definition parts_to_do_positive :: "row \<Rightarrow> bool" where
  "parts_to_do_positive i =
     (case py_int (get i ''parts_to_do'') of Inl e \<Rightarrow> False | Inr n \<Rightarrow> 0 < n)"

subsection \<open>Example inputs\<close>

text \<open>
  Rows as ClickHouse sends them (a 64-bit integer arrives as a string), replies of the
  server, and a world that starts with a script of replies and of typed answers.
\<close>

definition row_running :: row where
  "row_running =
     [(''parts_to_do'', PStr ''1''), (''is_done'', PInt 0), (''latest_failed_part'', PStr '''')]"

definition row_done :: row where
  "row_done =
     [(''parts_to_do'', PStr ''0''), (''is_done'', PInt 1), (''latest_failed_part'', PStr '''')]"

definition row_failed :: row where
  "row_failed =
     [(''parts_to_do'', PInt 2), (''is_done'', PInt 0), (''latest_failed_part'', PStr ''all_1_1_0'')]"

definition ok_rows :: "row list \<Rightarrow> reply" where
  "ok_rows d = Reply (Response True 200 [] (Data d))"

definition ok_text :: "string \<Rightarrow> reply" where
  "ok_text s = Reply (Response True 200 s Malformed)"

definition http_500 :: reply where
  "http_500 = Reply (Response False 500 ''boom'' Malformed)"

definition script :: "reply list \<Rightarrow> ustr list \<Rightarrow> world" where
  "script rs as = \<lparr>replies = rs, answers = as, today = ''2020-02-02'', trace = []\<rparr>"

definition world_three_polls :: world where
  "world_three_polls = script [ok_rows [row_running], ok_rows [row_running], ok_rows [row_done], http_500] []"


definition world_no_match :: world where
  "world_no_match = script [ok_rows [], http_500] [[121]]"

definition world_forced_delete_fails :: world where
  "world_forced_delete_fails = script [http_500] [[121]]"

definition no_config :: config where
  "no_config = \<lparr>cfg_database = None, cfg_match_key = None\<rparr>"




definition args_two_tables :: args where
  "args_two_tables = \<lparr>arg_prefix = ''p'', arg_key = Some ''Path'', arg_database = Some ''db'',
     arg_table = ''t1,t2'', arg_checkout_only = False, arg_await_mutation_end = False, arg_force = False\<rparr>"

definition world_poll_fails :: world where
  "world_poll_fails = script [ok_rows [[(''Path'', PStr ''p.x'')]], ok_text ''Ok.'', http_500, ok_rows []] [[121]]"

definition args_checkout :: args where
  "args_checkout = \<lparr>arg_prefix = '''', arg_key = None, arg_database = Some ''db'',
     arg_table = ''t1,t2'', arg_checkout_only = True, arg_await_mutation_end = False, arg_force = False\<rparr>"

definition world_checkout :: world where
  "world_checkout = script [http_500, ok_rows []] []"

definition args_checkout_await :: args where
  "args_checkout_await = \<lparr>arg_prefix = '''', arg_key = None, arg_database = Some ''db'',
     arg_table = ''t'', arg_checkout_only = True, arg_await_mutation_end = True, arg_force = False\<rparr>"

definition args_force_await :: args where
  "args_force_await = \<lparr>arg_prefix = ''a'', arg_key = None, arg_database = Some ''db'',
     arg_table = ''t'', arg_checkout_only = False, arg_await_mutation_end = True, arg_force = True\<rparr>"

definition world_running_then_done :: world where
  "world_running_then_done = script [ok_rows [row_running], ok_rows [row_done]] []"

definition args_default_prefix :: args where
  "args_default_prefix = \<lparr>arg_prefix = '''', arg_key = Some ''Path'', arg_database = Some ''db'',
     arg_table = ''t'', arg_checkout_only = False, arg_await_mutation_end = False, arg_force = False\<rparr>"

definition world_default_prefix :: world where
  "world_default_prefix = script [ok_rows []] []"

text \<open>
  A row that has a non-empty \<^verbatim>\<open>latest_failed_part\<close>: the field is there, it is a string,
  and the string is not empty.
\<close>

definition has_nonempty_failed_part :: "row \<Rightarrow> bool" where
  "has_nonempty_failed_part i =
     (case get i ''latest_failed_part'' of PStr s \<Rightarrow> s \<noteq> [] | _ \<Rightarrow> False)"

text \<open>
  A reply after which the polling loop goes on: the response is \<^verbatim>\<open>ok\<close> and its rows
  summarize to \<^verbatim>\<open>in_progress != 0 and failed == 0\<close>.
\<close>

definition keeps_polling :: "response \<Rightarrow> bool" where
  "keeps_polling r =
     (resp_ok r \<and>
      (case resp_json r of
         Data d \<Rightarrow>
           (case mutation_status d of
              Inr (in_progress, total_n, completed, failed) \<Rightarrow> in_progress \<noteq> 0 \<and> failed = 0
            | Inl e \<Rightarrow> False)
       | _ \<Rightarrow> False))"

definition row_without_failed_part :: row where
  "row_without_failed_part = [(''parts_to_do'', PStr ''0''), (''is_done'', PInt 1)]"

definition world_third_poll_fails :: world where
  "world_third_poll_fails =
     script [ok_rows [row_running], ok_rows [row_running], http_500, ok_rows [row_done]] []"

definition args_force_default_prefix :: args where
  "args_force_default_prefix = \<lparr>arg_prefix = '''', arg_key = Some ''Path'', arg_database = Some ''db'',
     arg_table = ''t'', arg_checkout_only = False, arg_await_mutation_end = False, arg_force = True\<rparr>"

definition world_forced_delete_ok :: world where
  "world_forced_delete_ok = script [ok_text ''Ok.'', ok_rows []] []"

lemmas example_defs =
  row_running_def row_done_def row_failed_def ok_rows_def ok_text_def http_500_def script_def

lemmas int_defs = get_def parse_int_def is_space_def is_digit_def digit_val_def

section \<open>Properties of \<^verbatim>\<open>mutation_status\<close>\<close>

lemma py_int_examples:
  "py_int (PStr '' -1_000 '') = Inr (- 1000)"
  "py_int (PStr [CHR 0x1C, CHR ''3'']) = Inl ValueError"
  "py_int (PStr [CHR 0x85, CHR ''3'', CHR 0xA0]) = Inr 3"
  "py_int (PStr ''1__0'') = Inl ValueError"
  "py_int (PStr []) = Inl ValueError"
  by (simp_all add: parse_int_def is_space_def is_digit_def digit_val_def)

lemma in_progress_rows_ok:
  "\<forall>i \<in> set data. \<exists>n. py_int (get i ''parts_to_do'') = Inr n \<Longrightarrow>
   in_progress_rows data = Inr (filter parts_to_do_positive data)"
  by (induction data) (auto simp: parts_to_do_positive_def)

lemma in_progress_rows_Inr:
  "in_progress_rows data = Inr rows \<Longrightarrow>
   \<forall>i \<in> set data. \<exists>n. py_int (get i ''parts_to_do'') = Inr n"
  by (induction data arbitrary: rows) (auto split: sum.splits)

lemma eq_one_iff: "eq_one v \<longleftrightarrow> v = PInt 1 \<or> v = PBool True"
  by (cases v) auto

lemma ne_empty_str_iff: "ne_empty_str v \<longleftrightarrow> v \<noteq> PStr ''''"
  by (cases v) auto

lemma mutation_status_all_parse:
  assumes "\<forall>i \<in> set data. \<exists>n. py_int (get i ''parts_to_do'') = Inr n"
  shows "mutation_status data = Inr
     (length (filter parts_to_do_positive data),
      length data,
      length (filter (\<lambda>i. get i ''is_done'' = PInt 1 \<or> get i ''is_done'' = PBool True) data),
      length (filter (\<lambda>i. get i ''latest_failed_part'' \<noteq> PStr '''') data))"
  using in_progress_rows_ok [OF assms]
  by (simp add: mutation_status_def eq_one_iff ne_empty_str_iff)

lemma count_perm: "mset xs = mset ys \<Longrightarrow> length (filter P xs) = length (filter P ys)"
  by (metis mset_filter size_mset)

lemma failed_count_of_strings:
  "\<forall>i \<in> set data. \<exists>s. get i ''latest_failed_part'' = PStr s \<Longrightarrow>
   filter (\<lambda>i. get i ''latest_failed_part'' \<noteq> PStr '''') data = filter has_nonempty_failed_part data"
  by (rule filter_cong) (auto simp: has_nonempty_failed_part_def)

text \<open>
  C1, where it fails: one row whose \<^verbatim>\<open>parts_to_do\<close> converts (to 0) and that has no
  \<^verbatim>\<open>latest_failed_part\<close>. \<^verbatim>\<open>get\<close> reads \<^verbatim>\<open>None\<close>, which is not equal to the empty
  string, so the row is counted as failed, though no row has a non-empty
  \<^verbatim>\<open>latest_failed_part\<close>.
\<close>

theorem missing_failed_part_counts_as_failed:
  "py_int (get row_without_failed_part ''parts_to_do'') = Inr 0
   \<and> get row_without_failed_part ''latest_failed_part'' = PNone
   \<and> mutation_status [row_without_failed_part] = Inr (0, 1, 1, 1)
   \<and> length (filter has_nonempty_failed_part [row_without_failed_part]) = 0"
  by (simp add: mutation_status_def row_without_failed_part_def has_nonempty_failed_part_def int_defs)

text \<open>
  C1, as the code has it. When the \<^verbatim>\<open>parts_to_do\<close> of every row converts to an integer,
  \<^verbatim>\<open>mutation_status\<close> returns the tuple of: the number of rows whose \<^verbatim>\<open>parts_to_do\<close> is
  greater than zero, the length of the list, the number of rows whose \<^verbatim>\<open>is_done\<close> is
  equal to one (the integer or \<^verbatim>\<open>True\<close>), and the number of rows whose
  \<^verbatim>\<open>latest_failed_part\<close>, as \<^verbatim>\<open>get\<close> reads it, is not the empty string. When the
  \<^verbatim>\<open>latest_failed_part\<close> of every row is a string, the last number is the number of rows
  with a non-empty \<^verbatim>\<open>latest_failed_part\<close>.
\<close>

theorem mutation_status_counts:
  assumes "\<forall>i \<in> set data. \<exists>n. py_int (get i ''parts_to_do'') = Inr n"
  shows "mutation_status data = Inr
     (length (filter parts_to_do_positive data),
      length data,
      length (filter (\<lambda>i. get i ''is_done'' = PInt 1 \<or> get i ''is_done'' = PBool True) data),
      length (filter (\<lambda>i. get i ''latest_failed_part'' \<noteq> PStr '''') data))
    \<and> ((\<forall>i \<in> set data. \<exists>s. get i ''latest_failed_part'' = PStr s) \<longrightarrow>
         length (filter (\<lambda>i. get i ''latest_failed_part'' \<noteq> PStr '''') data) =
         length (filter has_nonempty_failed_part data))"
  using mutation_status_all_parse [OF assms] failed_count_of_strings [of data] by simp

text \<open>Three rows with all fields: two with parts to do, one done, one with a failed part.\<close>

theorem mutation_status_counts_witness:
  "py_int (get row_running ''parts_to_do'') = Inr 1
   \<and> py_int (get row_done ''parts_to_do'') = Inr 0
   \<and> py_int (get row_failed ''parts_to_do'') = Inr 2
   \<and> get row_running ''latest_failed_part'' = PStr []
   \<and> get row_done ''latest_failed_part'' = PStr []
   \<and> get row_failed ''latest_failed_part'' = PStr ''all_1_1_0''
   \<and> mutation_status [row_running, row_done, row_failed] = Inr (2, 3, 1, 1)
   \<and> length (filter has_nonempty_failed_part [row_running, row_done, row_failed]) = 1"
proof -
  have p: "py_int (get row_running ''parts_to_do'') = Inr 1"
    "py_int (get row_done ''parts_to_do'') = Inr 0"
    "py_int (get row_failed ''parts_to_do'') = Inr 2"
    by (simp_all add: example_defs int_defs)
  have f: "get row_running ''latest_failed_part'' = PStr []"
    "get row_done ''latest_failed_part'' = PStr []"
    "get row_failed ''latest_failed_part'' = PStr ''all_1_1_0''"
    by (simp_all add: example_defs get_def)
  from p have h: "\<forall>i \<in> set [row_running, row_done, row_failed]. \<exists>n. py_int (get i ''parts_to_do'') = Inr n"
    by simp
  from f have s: "\<forall>i \<in> set [row_running, row_done, row_failed]. \<exists>s. get i ''latest_failed_part'' = PStr s"
    by simp
  from mutation_status_counts [OF h] s
  have "mutation_status [row_running, row_done, row_failed] = Inr
     (length (filter parts_to_do_positive [row_running, row_done, row_failed]),
      length [row_running, row_done, row_failed],
      length (filter (\<lambda>i. get i ''is_done'' = PInt 1 \<or> get i ''is_done'' = PBool True)
                [row_running, row_done, row_failed]),
      length (filter has_nonempty_failed_part [row_running, row_done, row_failed]))"
    by simp
  with p f show ?thesis
    by (simp add: parts_to_do_positive_def has_nonempty_failed_part_def)
       (simp add: example_defs get_def)
qed

text \<open>
  C6. On a permutation of the list \<^verbatim>\<open>mutation_status\<close> returns the same tuple; where it
  raises on the list (a \<^verbatim>\<open>parts_to_do\<close> that does not convert), it raises on the
  permutation too.
\<close>

theorem mutation_status_perm:
  assumes "mset data = mset data'"
  shows "case mutation_status data of
           Inr t \<Rightarrow> mutation_status data' = Inr t
         | Inl e \<Rightarrow> (\<exists>e'. mutation_status data' = Inl e')"
proof (cases "\<forall>i \<in> set data. \<exists>n. py_int (get i ''parts_to_do'') = Inr n")
  case True
  moreover from assms have "set data = set data'" by (rule mset_eq_setD)
  ultimately have "\<forall>i \<in> set data'. \<exists>n. py_int (get i ''parts_to_do'') = Inr n" by simp
  with True assms show ?thesis
    by (simp add: mutation_status_all_parse count_perm [OF assms] mset_eq_length [OF assms])
next
  case False
  from assms have s: "set data = set data'" by (rule mset_eq_setD)
  from False have "\<exists>e. in_progress_rows data = Inl e"
    using in_progress_rows_Inr [of data] by (cases "in_progress_rows data") auto
  moreover from False s have "\<exists>e. in_progress_rows data' = Inl e"
    using in_progress_rows_Inr [of data'] by (cases "in_progress_rows data'") auto
  ultimately show ?thesis by (auto simp: mutation_status_def)
qed

text \<open>Two rows in both orders.\<close>

theorem mutation_status_perm_witness:
  "mset [row_running, row_done] = mset [row_done, row_running]
   \<and> mutation_status [row_running, row_done] = Inr (1, 2, 1, 0)
   \<and> mutation_status [row_done, row_running] = Inr (1, 2, 1, 0)"
proof -
  have h: "mset [row_running, row_done] = mset [row_done, row_running]" by simp
  have v: "mutation_status [row_running, row_done] = Inr (1, 2, 1, 0)"
    by (simp add: mutation_status_def example_defs int_defs)
  from mutation_status_perm [OF h] v
  have "mutation_status [row_done, row_running] = Inr (1, 2, 1, 0)" by simp
  with h v show ?thesis by simp
qed

section \<open>Properties of \<^verbatim>\<open>check_mutations\<close>\<close>

lemma replies_emit [simp]: "replies (emit e w) = replies w"
  and answers_emit [simp]: "answers (emit e w) = answers w"
  and today_emit [simp]: "today (emit e w) = today w"
  and trace_emit [simp]: "trace (emit e w) = trace w @ [e]"
  by (simp_all add: emit_def)

lemma execute_sql_data:
  "replies w = Reply r # rs \<Longrightarrow> resp_ok r \<Longrightarrow> resp_json r = Data d \<Longrightarrow>
   execute_sql q ''json'' w = (Inr (Rows d), (emit (Post (q @ '' FORMAT JSON'')) w)\<lparr>replies := rs\<rparr>)"
  by (simp add: execute_sql_def Let_def)

lemma execute_sql_not_ok:
  "replies w = Reply r # rs \<Longrightarrow> \<not> resp_ok r \<Longrightarrow>
   execute_sql q f w = (Inl (RuntimeError (QueryFailed q (resp_status_code r) (resp_text r))),
                        (emit (Post (q @ '' FORMAT JSON'')) w)\<lparr>replies := rs\<rparr>)"
  by (simp add: execute_sql_def Let_def)

text \<open>
  C2. With \<^verbatim>\<open>await_complete\<close>, when the first three fetches succeed and their rows
  summarize to \<open>in_progress = 1, failed = 0\<close>, then \<open>in_progress = 1, failed = 0\<close>, then
  \<open>in_progress = 0\<close>, \<^verbatim>\<open>check_mutations\<close> returns after exactly three requests, all of
  them the mutations query (one before the loop, two in its body), and two sleeps; the
  replies after the third are left unread.
\<close>

theorem check_mutations_three_fetches:
  assumes "replies w = Reply r1 # Reply r2 # Reply r3 # rest"
    and "resp_ok r1 \<and> resp_ok r2 \<and> resp_ok r3"
    and "resp_json r1 = Data d1 \<and> resp_json r2 = Data d2 \<and> resp_json r3 = Data d3"
    and "mutation_status d1 = Inr (1, t1, c1, 0)"
    and "mutation_status d2 = Inr (1, t2, c2, 0)"
    and "mutation_status d3 = Inr (0, t3, c3, f3)"
  shows "fst (check_mutations database table True pretty w) = Inr ()
       \<and> replies (snd (check_mutations database table True pretty w)) = rest
       \<and> filter is_post (events_since w (snd (check_mutations database table True pretty w))) =
           replicate 3 (Post (mutations_query database table (today w) @ '' FORMAT JSON''))
       \<and> filter (\<lambda>e. e = Sleep) (events_since w (snd (check_mutations database table True pretty w))) =
           [Sleep, Sleep]"
  using assms
  by (simp add: check_mutations_def Let_def execute_sql_data events_since_def numeral_3_eq_3)

text \<open>A script of four replies: the fourth is not requested.\<close>

theorem check_mutations_three_fetches_witness:
  "mutation_status [row_running] = Inr (1, 1, 0, 0)
   \<and> mutation_status [row_done] = Inr (0, 1, 1, 0)
   \<and> fst (check_mutations (Some ''db'') ''t'' True True world_three_polls) = Inr ()
   \<and> replies (snd (check_mutations (Some ''db'') ''t'' True True world_three_polls)) = [http_500]
   \<and> length (filter is_post (trace (snd (check_mutations (Some ''db'') ''t'' True True world_three_polls)))) = 3"
proof -
  have a: "mutation_status [row_running] = Inr (1, 1, 0, 0)"
    by (simp add: mutation_status_def example_defs int_defs)
  have b: "mutation_status [row_done] = Inr (0, 1, 1, 0)"
    by (simp add: mutation_status_def example_defs int_defs)
  have r: "replies world_three_polls =
      Reply (Response True 200 [] (Data [row_running])) # Reply (Response True 200 [] (Data [row_running]))
       # Reply (Response True 200 [] (Data [row_done])) # [http_500]"
    by (simp add: world_three_polls_def script_def ok_rows_def)
  have t: "trace world_three_polls = []" by (simp add: world_three_polls_def script_def)
  from check_mutations_three_fetches [OF r _ _ a a b, of "Some ''db''" "''t''" True] a b t
  show ?thesis by (simp add: events_since_def)
qed

lemma keeps_pollingE:
  assumes "keeps_polling p"
  obtains d n t c where "resp_ok p" and "resp_json p = Data d"
    and "mutation_status d = Inr (Suc n, t, c, 0)"
proof -
  from assms have ok: "resp_ok p" by (simp add: keeps_polling_def)
  from assms obtain d where d: "resp_json p = Data d"
    by (cases "resp_json p") (simp_all add: keeps_polling_def)
  from assms d obtain ip t c f where m: "mutation_status d = Inr (ip, t, c, f)" and "ip \<noteq> 0" and "f = 0"
    by (cases "mutation_status d") (auto simp: keeps_polling_def)
  then obtain n where "ip = Suc n" by (cases ip) auto
  with ok d m \<open>f = 0\<close> that show thesis by blast
qed

lemma await_loop_step:
  assumes "replies w = Reply p # rs" and "resp_ok p" and "resp_json p = Data d"
    and "mutation_status d = Inr (ip', t', c', f')"
  shows "await_loop q (Suc n, t, 0) w =
           await_loop q (ip', t', f') (emit Sleep ((emit (Post (q @ '' FORMAT JSON'')) w)\<lparr>replies := rs\<rparr>))"
  using assms by (subst await_loop.simps) (simp add: execute_sql_data)


lemma check_mutations_reports_first_completed:
  assumes "replies w = Reply r1 # Reply r2 # rest"
    and "resp_ok r1 \<and> resp_ok r2"
    and "resp_json r1 = Data d1 \<and> resp_json r2 = Data d2"
    and "mutation_status d1 = Inr (Suc n, t1, c1, 0)"
    and "mutation_status d2 = Inr (0, t2, c2, f2)"
  shows "last (trace (snd (check_mutations database table True False w))) =
           Print (StatusFull 0 c1 f2 t2)"
  using assms by (simp add: check_mutations_def Let_def execute_sql_data)




section \<open>Properties of \<^verbatim>\<open>run\<close>\<close>

lemma events_since_self_append [simp]:
  "trace w' = trace w @ evs \<Longrightarrow> events_since w w' = evs"
  by (simp add: events_since_def)

lemma execute_sql_trace:
  "trace (snd (execute_sql q f w)) = trace w @ [Post (q @ '' FORMAT JSON'')]"
  by (simp add: execute_sql_def Let_def split: list.splits reply.splits json_body.splits)

lemma execute_sql_answers:
  "answers (snd (execute_sql q f w)) = answers w"
  by (simp add: execute_sql_def Let_def split: list.splits reply.splits json_body.splits)

text \<open>
  C7. In the workflow without \<^verbatim>\<open>force\<close>, when the search succeeds with an empty result
  set, \<^verbatim>\<open>run\<close> returns after the search request and the line that no matches were
  found: it does not prompt, reads no answer and sends no delete statement.
\<close>

theorem run_empty_search_stops:
  assumes "replies w = Reply r # rs" and "resp_ok r" and "resp_json r = Data []"
  shows "fst (run prefix key database table False await_complete w) = Inr ()
       \<and> events_since w (snd (run prefix key database table False await_complete w)) =
           [Post (search_query prefix key database table @ '' FORMAT JSON''), Print (NoMatches prefix)]
       \<and> Input \<notin> set (events_since w (snd (run prefix key database table False await_complete w)))
       \<and> Post (delete_query prefix key database table @ '' FORMAT JSON'')
            \<notin> set (events_since w (snd (run prefix key database table False await_complete w)))
       \<and> answers (snd (run prefix key database table False await_complete w)) = answers w
       \<and> replies (snd (run prefix key database table False await_complete w)) = rs"
  using assms
  by (simp add: run_def get_data_def execute_sql_data events_since_def search_query_def delete_query_def)

text \<open>An empty result; the answer \<^verbatim>\<open>y\<close> that is waiting is not read.\<close>

theorem run_empty_search_stops_witness:
  "replies world_no_match = [Reply (Response True 200 [] (Data [])), http_500]
   \<and> fst (run ''a'' (Some ''Path'') (Some ''db'') ''t'' False True world_no_match) = Inr ()
   \<and> trace (snd (run ''a'' (Some ''Path'') (Some ''db'') ''t'' False True world_no_match)) =
        [Post (search_query ''a'' (Some ''Path'') (Some ''db'') ''t'' @ '' FORMAT JSON''),
         Print (NoMatches ''a'')]
   \<and> answers (snd (run ''a'' (Some ''Path'') (Some ''db'') ''t'' False True world_no_match)) = [[121]]"
proof -
  have r: "replies world_no_match = Reply (Response True 200 [] (Data [])) # [http_500]"
    by (simp add: world_no_match_def script_def ok_rows_def)
  have t: "trace world_no_match = []" "answers world_no_match = [[121]]"
    by (simp_all add: world_no_match_def script_def)
  from run_empty_search_stops [OF r, of "''a''" "Some ''Path''" "Some ''db''" "''t''" True] r t
  show ?thesis by (simp add: events_since_def)
qed

subsection \<open>Forced delete\<close>

lemma delete_data_cases:
  "(\<exists>err. delete_data prefix key database table w =
        (Inl (RuntimeError err),
         (emit (Post (delete_query prefix key database table @ '' FORMAT JSON'')) w)\<lparr>replies := tl (replies w)\<rparr>))
   \<or> (\<exists>e. (\<forall>err. e \<noteq> RuntimeError err) \<and> delete_data prefix key database table w =
        (Inl e, (emit (Post (delete_query prefix key database table @ '' FORMAT JSON'')) w)\<lparr>replies := tl (replies w)\<rparr>))
   \<or> (\<exists>p. delete_data prefix key database table w =
        (Inr (), emit (Print p)
           ((emit (Post (delete_query prefix key database table @ '' FORMAT JSON'')) w)\<lparr>replies := tl (replies w)\<rparr>)))"
  by (auto simp: delete_data_def execute_sql_def Let_def emit_def split: list.splits reply.splits)

lemma except_RuntimeError_other:
  "(\<forall>err. e \<noteq> RuntimeError err) \<Longrightarrow> except_RuntimeError (Inl e, w) = (Inl e, w)"
  by (cases e) auto

lemma except_RuntimeError_Inr [simp]: "except_RuntimeError (Inr u, w) = (Inr u, w)"
  by simp

lemma run_force_shape:
  "fst (run prefix key database table True await_complete w) = Inr ()
   \<and> answers (snd (run prefix key database table True await_complete w)) = answers w
   \<and> filter is_post (events_since w (snd (run prefix key database table True await_complete w))) =
       [Post (delete_query prefix key database table @ '' FORMAT JSON'')]
   \<and> Input \<notin> set (events_since w (snd (run prefix key database table True await_complete w)))
   \<and> last (events_since w (snd (run prefix key database table True await_complete w))) =
       Print (StartedMutation (fmt key) prefix (fmt database) table)"
  using delete_data_cases [of prefix key database table w]
  by (elim disjE exE conjE) (auto simp: run_def events_since_def Let_def except_RuntimeError_other)

lemma and_then_Inl [simp]: "and_then (Inl e, w) f = (Inl e, w)"
  and and_then_Inr [simp]: "and_then (Inr u, w) f = f w"
  by (simp_all add: and_then_def)

lemma for_each_raises: "body x w = (Inl e, w1) \<Longrightarrow> for_each body (x # xs) w = (Inl e, w1)"
  by simp

lemma for_each_continues: "body x w = (Inr u, w1) \<Longrightarrow> for_each body (x # xs) w = for_each body xs w1"
  by simp

lemma for_each_never_raises:
  "(\<And>x w. fst (body x w) = Inr ()) \<Longrightarrow> fst (for_each body xs w) = Inr ()"
proof (induction xs arbitrary: w)
  case Nil
  show ?case by simp
next
  case (Cons x xs)
  obtain r w1 where b: "body x w = (r, w1)" by (cases "body x w")
  with Cons.prems [of x w] have "r = Inr ()" by simp
  with b Cons show ?case by simp
qed

text \<open>
  C10. With \<^verbatim>\<open>force_delete\<close>, \<^verbatim>\<open>run\<close> always returns normally. It sends exactly one
  statement, the delete, reads no answer, and ends by printing that a mutation was
  started; a \<open>RuntimeError\<close> of the delete is printed before that line. So a batch of
  forced deletes never raises.
\<close>

theorem run_force_never_raises:
  "fst (run prefix key database table True await_complete w) = Inr ()
   \<and> answers (snd (run prefix key database table True await_complete w)) = answers w
   \<and> filter is_post (events_since w (snd (run prefix key database table True await_complete w))) =
       [Post (delete_query prefix key database table @ '' FORMAT JSON'')]
   \<and> Input \<notin> set (events_since w (snd (run prefix key database table True await_complete w)))
   \<and> last (events_since w (snd (run prefix key database table True await_complete w))) =
       Print (StartedMutation (fmt key) prefix (fmt database) table)
   \<and> (\<forall>err w1. delete_data prefix key database table w = (Inl (RuntimeError err), w1) \<longrightarrow>
         run prefix key database table True await_complete w =
           (Inr (), emit (Print (StartedMutation (fmt key) prefix (fmt database) table))
                      (emit (Print (ErrorText err)) w1)))
   \<and> fst (for_each (\<lambda>p. for_each (\<lambda>t. run p key database t True await_complete) tables) prefixes w) =
       Inr ()"
proof -
  have batch: "fst (for_each (\<lambda>p. for_each (\<lambda>t. run p key database t True await_complete) tables) prefixes w) =
       Inr ()"
    by (rule for_each_never_raises, rule for_each_never_raises) (simp add: run_force_shape)
  have caught: "\<forall>err w1. delete_data prefix key database table w = (Inl (RuntimeError err), w1) \<longrightarrow>
         run prefix key database table True await_complete w =
           (Inr (), emit (Print (StartedMutation (fmt key) prefix (fmt database) table))
                      (emit (Print (ErrorText err)) w1))"
    by (simp add: run_def)
  from run_force_shape [of prefix key database table await_complete w] batch caught
  show ?thesis by blast
qed

text \<open>The server answers the forced delete with HTTP 500.\<close>

theorem run_force_never_raises_witness:
  "fst (delete_data ''a'' (Some ''Path'') (Some ''db'') ''t'' world_forced_delete_fails) =
      Inl (RuntimeError (QueryFailed (delete_query ''a'' (Some ''Path'') (Some ''db'') ''t'') 500 ''boom''))
   \<and> fst (run ''a'' (Some ''Path'') (Some ''db'') ''t'' True True world_forced_delete_fails) = Inr ()
   \<and> trace (snd (run ''a'' (Some ''Path'') (Some ''db'') ''t'' True True world_forced_delete_fails)) =
      [Post (delete_query ''a'' (Some ''Path'') (Some ''db'') ''t'' @ '' FORMAT JSON''),
       Print (ErrorText (QueryFailed (delete_query ''a'' (Some ''Path'') (Some ''db'') ''t'') 500 ''boom'')),
       Print (StartedMutation ''Path'' ''a'' ''db'' ''t'')]
   \<and> answers (snd (run ''a'' (Some ''Path'') (Some ''db'') ''t'' True True world_forced_delete_fails)) = [[121]]"
proof -
  have d: "delete_data ''a'' (Some ''Path'') (Some ''db'') ''t'' world_forced_delete_fails =
      (Inl (RuntimeError (QueryFailed (delete_query ''a'' (Some ''Path'') (Some ''db'') ''t'') 500 ''boom'')),
       (emit (Post (delete_query ''a'' (Some ''Path'') (Some ''db'') ''t'' @ '' FORMAT JSON'')) world_forced_delete_fails)
         \<lparr>replies := []\<rparr>)"
    by (simp add: delete_data_def world_forced_delete_fails_def script_def http_500_def execute_sql_not_ok)
  from run_force_never_raises [of "''a''" "Some ''Path''" "Some ''db''" "''t''" True world_forced_delete_fails] d
  have "run ''a'' (Some ''Path'') (Some ''db'') ''t'' True True world_forced_delete_fails =
      (Inr (), emit (Print (StartedMutation (fmt (Some ''Path'')) ''a'' (fmt (Some ''db'')) ''t''))
         (emit (Print (ErrorText (QueryFailed (delete_query ''a'' (Some ''Path'') (Some ''db'') ''t'') 500 ''boom'')))
           ((emit (Post (delete_query ''a'' (Some ''Path'') (Some ''db'') ''t'' @ '' FORMAT JSON'')) world_forced_delete_fails)
              \<lparr>replies := []\<rparr>)))"
    by blast
  with d show ?thesis by (simp add: world_forced_delete_fails_def script_def)
qed

subsection \<open>Errors of the search and of the delete\<close>









subsection \<open>Errors of the polling phase\<close>

lemma execute_sql_text:
  "replies w = Reply r # rs \<Longrightarrow> resp_ok r \<Longrightarrow>
   execute_sql q ''text'' w =
     (Inr (if resp_text r \<noteq> [] then Text (resp_text r) else Flag True),
      (emit (Post (q @ '' FORMAT JSON'')) w)\<lparr>replies := rs\<rparr>)"
  by (simp add: execute_sql_def Let_def)

lemma check_mutations_not_ok:
  "replies w = Reply r # rs \<Longrightarrow> \<not> resp_ok r \<Longrightarrow>
   check_mutations database table await_complete pretty w =
     (Inl (RuntimeError (QueryFailed (mutations_query database table (today w))
             (resp_status_code r) (resp_text r))),
      (emit (Post (mutations_query database table (today w) @ '' FORMAT JSON'')) w)\<lparr>replies := rs\<rparr>)"
  by (simp add: check_mutations_def Let_def execute_sql_not_ok)

lemma get_data_Some_nonempty:
  "get_data prefix key database table w = (Inr (message, Some ms), w1) \<Longrightarrow> ms \<noteq> []"
  by (auto simp: get_data_def split: prod.splits sum.splits if_splits)

lemma run_polling_error_caught:
  "get_data prefix key database table w = (Inr (message, Some ms), w1) \<Longrightarrow>
   input (emit (Print message) w1) = (Inr answer, w2) \<Longrightarrow> lower answer \<in> set accepted \<Longrightarrow>
   delete_data prefix key database table w2 = (Inr (), w3) \<Longrightarrow>
   check_mutations database table await_complete True w3 = (Inl (RuntimeError err), w4) \<Longrightarrow>
   run prefix key database table False await_complete w = (Inr (), emit (Print (ErrorText err)) w4)"
  using get_data_Some_nonempty [of prefix key database table w message ms w1]
  by (simp add: run_def)

lemma for_each_append:
  "for_each body (xs @ ys) w = and_then (for_each body xs w) (for_each body ys)"
proof (induction xs arbitrary: w)
  case Nil
  show ?case by simp
next
  case (Cons x xs)
  then show ?case by (cases "body x w") (auto simp: and_then_def split: sum.splits)
qed

lemma split_comma_nonempty: "split_comma s \<noteq> []"
  by (induction s) (auto split: list.splits)

lemma main_checkout_only:
  "arg_table a \<noteq> [] \<Longrightarrow> arg_checkout_only a \<Longrightarrow> \<not> arg_force a \<Longrightarrow>
   main a cfg w =
     for_each (\<lambda>table. check_mutations (py_or (arg_database a) (cfg_database cfg)) table False False)
       (split_comma (arg_table a)) w"
  by (simp add: main_def Let_def)

lemma main_checkout_only_raises:
  assumes "arg_table a \<noteq> []" and "arg_checkout_only a" and "\<not> arg_force a"
    and "split_comma (arg_table a) = ts1 @ t # ts2"
    and "for_each (\<lambda>table. check_mutations (py_or (arg_database a) (cfg_database cfg)) table False False)
           ts1 w = (Inr (), w1)"
    and "check_mutations (py_or (arg_database a) (cfg_database cfg)) t False False w1 = (Inl e, w2)"
  shows "main a cfg w = (Inl e, w2)"
  using assms by (simp add: main_checkout_only for_each_append)

lemma await_loop_fetch_error:
  "list_all keeps_polling polls \<Longrightarrow> replies w = map Reply polls @ Reply r # rs \<Longrightarrow> \<not> resp_ok r \<Longrightarrow>
   fst (await_loop q (Suc n, t, 0) w) =
     Inl (RuntimeError (QueryFailed q (resp_status_code r) (resp_text r)))
   \<and> replies (snd (await_loop q (Suc n, t, 0) w)) = rs"
proof (induction polls arbitrary: w n t)
  case Nil
  then show ?case by (subst await_loop.simps, subst (2) await_loop.simps) (simp add: execute_sql_not_ok)
next
  case (Cons p polls)
  from Cons.prems(1) have kp: "keeps_polling p" and rest: "list_all keeps_polling polls" by simp_all
  from kp obtain d n' t' c' where p: "resp_ok p" "resp_json p = Data d"
    "mutation_status d = Inr (Suc n', t', c', 0)" by (rule keeps_pollingE)
  let ?w = "emit Sleep ((emit (Post (q @ '' FORMAT JSON'')) w)\<lparr>replies := map Reply polls @ Reply r # rs\<rparr>)"
  from Cons.prems(2) have r: "replies w = Reply p # (map Reply polls @ Reply r # rs)" by simp
  have step: "await_loop q (Suc n, t, 0) w = await_loop q (Suc n', t', 0) ?w"
    by (rule await_loop_step [OF r p])
  have "replies ?w = map Reply polls @ Reply r # rs" by simp
  from Cons.IH [OF rest this Cons.prems(3)] step show ?case by simp
qed

lemma check_mutations_any_fetch_error:
  assumes "list_all keeps_polling polls" and "replies w = map Reply polls @ Reply r # rs"
    and "\<not> resp_ok r"
  shows "fst (check_mutations database table True pretty w) =
           Inl (RuntimeError (QueryFailed (mutations_query database table (today w))
                  (resp_status_code r) (resp_text r)))
       \<and> replies (snd (check_mutations database table True pretty w)) = rs"
proof (cases polls)
  case Nil
  with assms show ?thesis by (simp add: check_mutations_not_ok)
next
  case (Cons p ps)
  with assms(1) have kp: "keeps_polling p" and more: "list_all keeps_polling ps" by simp_all
  from kp obtain d n t c where p: "resp_ok p" "resp_json p = Data d"
    "mutation_status d = Inr (Suc n, t, c, 0)" by (rule keeps_pollingE)
  let ?q = "mutations_query database table (today w)"
  let ?w = "emit (Print Waiting) ((emit (Post (?q @ '' FORMAT JSON'')) w)\<lparr>replies := map Reply ps @ Reply r # rs\<rparr>)"
  from assms(2) Cons have r: "replies w = Reply p # (map Reply ps @ Reply r # rs)" by simp
  have "replies ?w = map Reply ps @ Reply r # rs" by simp
  from await_loop_fetch_error [OF more this assms(3), of ?q n t]
  show ?thesis
    by (cases "await_loop ?q (Suc n, t, 0) ?w")
       (simp add: check_mutations_def Let_def execute_sql_data [OF r p(1,2)] p(3))
qed

text \<open>
  C3, where it fails: one prefix and two tables. For the first table a match is found,
  the operator confirms, the delete succeeds and the fetch of the mutations gets HTTP
  500. \<^verbatim>\<open>run\<close> prints the error, and \<^verbatim>\<open>main\<close> goes on to search the second table and
  returns normally.
\<close>

theorem polling_error_caught_after_delete:
  "fst (main args_two_tables no_config world_poll_fails) = Inr ()
   \<and> replies (snd (main args_two_tables no_config world_poll_fails)) = []
   \<and> Print (ErrorText (QueryFailed (mutations_query (Some ''db'') ''t1'' ''2020-02-02'') 500 ''boom''))
        \<in> set (trace (snd (main args_two_tables no_config world_poll_fails)))
   \<and> last (trace (snd (main args_two_tables no_config world_poll_fails))) = Print (NoMatches ''p'')"
  by (simp add: main_def Let_def args_two_tables_def no_config_def world_poll_fails_def script_def http_500_def
        ok_rows_def ok_text_def run_def get_data_def delete_data_def input_def
        execute_sql_data execute_sql_text check_mutations_not_ok
        lower_def lower_cp_def accepted_def)

text \<open>
  C3, as the code has it. A fetch of \<^verbatim>\<open>check_mutations\<close> that gets a response that is not
  \<^verbatim>\<open>ok\<close> makes \<^verbatim>\<open>check_mutations\<close> raise the \<open>RuntimeError\<close>: the first fetch, and with
  \<^verbatim>\<open>await_complete\<close> any later one, after any number of fetches that kept the loop
  polling. After a confirmed delete \<^verbatim>\<open>run\<close> catches it: it prints the error and returns
  normally. In checkout-only mode nothing catches it: \<^verbatim>\<open>main\<close> ends with the exception
  of the first table whose check raises.
\<close>

theorem polling_error_caught_in_run_not_in_checkout:
  "(replies w = Reply r # rs \<and> \<not> resp_ok r \<longrightarrow>
      check_mutations database table await_complete pretty w =
        (Inl (RuntimeError (QueryFailed (mutations_query database table (today w))
                (resp_status_code r) (resp_text r))),
         (emit (Post (mutations_query database table (today w) @ '' FORMAT JSON'')) w)\<lparr>replies := rs\<rparr>))
   \<and> (list_all keeps_polling polls \<and> replies w = map Reply polls @ Reply r # rs \<and> \<not> resp_ok r \<longrightarrow>
      fst (check_mutations database table True pretty w) =
        Inl (RuntimeError (QueryFailed (mutations_query database table (today w))
               (resp_status_code r) (resp_text r)))
      \<and> replies (snd (check_mutations database table True pretty w)) = rs)
   \<and> (get_data prefix key database table w = (Inr (message, Some ms), w1)
        \<and> input (emit (Print message) w1) = (Inr answer, w2) \<and> lower answer \<in> set accepted
        \<and> delete_data prefix key database table w2 = (Inr (), w3)
        \<and> check_mutations database table await_complete True w3 = (Inl (RuntimeError err), w4) \<longrightarrow>
      run prefix key database table False await_complete w = (Inr (), emit (Print (ErrorText err)) w4))
   \<and> (arg_table a \<noteq> [] \<and> arg_checkout_only a \<and> \<not> arg_force a
        \<and> split_comma (arg_table a) = ts1 @ t # ts2
        \<and> for_each (\<lambda>table. check_mutations (py_or (arg_database a) (cfg_database cfg)) table False False)
             ts1 w = (Inr (), w1)
        \<and> check_mutations (py_or (arg_database a) (cfg_database cfg)) t False False w1 = (Inl e, w2) \<longrightarrow>
      main a cfg w = (Inl e, w2))"
  using check_mutations_not_ok [of w r rs database table await_complete pretty]
    check_mutations_any_fetch_error [of polls w r rs database table pretty]
    run_polling_error_caught [of prefix key database table w message ms w1 answer w2 w3 await_complete err w4]
    main_checkout_only_raises [of a ts1 t ts2 cfg w w1 e w2]
  by blast

text \<open>
  Checkout-only with a failing first fetch, a failing fetch after a confirmed delete, and
  a polling loop whose third fetch fails.
\<close>

theorem polling_error_caught_in_run_not_in_checkout_witness:
  "fst (main args_checkout no_config world_checkout) =
      Inl (RuntimeError (QueryFailed (mutations_query (Some ''db'') ''t1'' ''2020-02-02'') 500 ''boom''))
   \<and> replies (snd (main args_checkout no_config world_checkout)) = [ok_rows []]
   \<and> fst (run ''p'' (Some ''Path'') (Some ''db'') ''t1'' False False world_poll_fails) = Inr ()
   \<and> last (trace (snd (run ''p'' (Some ''Path'') (Some ''db'') ''t1'' False False world_poll_fails))) =
      Print (ErrorText (QueryFailed (mutations_query (Some ''db'') ''t1'' ''2020-02-02'') 500 ''boom''))
   \<and> replies (snd (run ''p'' (Some ''Path'') (Some ''db'') ''t1'' False False world_poll_fails)) = [ok_rows []]
   \<and> fst (check_mutations (Some ''db'') ''t1'' True True world_third_poll_fails) =
      Inl (RuntimeError (QueryFailed (mutations_query (Some ''db'') ''t1'' ''2020-02-02'') 500 ''boom''))
   \<and> replies (snd (check_mutations (Some ''db'') ''t1'' True True world_third_poll_fails)) =
      [ok_rows [row_done]]"
proof -
  note amended = polling_error_caught_in_run_not_in_checkout
  let ?r = "Response False 500 ''boom'' Malformed"
  let ?e = "RuntimeError (QueryFailed (mutations_query (Some ''db'') ''t1'' ''2020-02-02'') 500 ''boom'')"
  let ?q = "Post (mutations_query (Some ''db'') ''t1'' ''2020-02-02'' @ '' FORMAT JSON'')"
  \<comment> \<open>checkout-only mode: the first table's fetch fails\<close>
  have c0: "replies world_checkout = Reply ?r # [ok_rows []] \<and> \<not> resp_ok ?r"
    by (simp add: world_checkout_def script_def http_500_def)
  from amended [where w = world_checkout and r = "?r" and rs = "[ok_rows []]"
      and database = "Some ''db''" and table = "''t1''" and await_complete = False and pretty = False,
      THEN conjunct1] c0
  have c1: "check_mutations (Some ''db'') ''t1'' False False world_checkout =
      (Inl ?e, (emit ?q world_checkout)\<lparr>replies := [ok_rows []]\<rparr>)"
    by (simp add: world_checkout_def script_def)
  have c2: "arg_table args_checkout \<noteq> [] \<and> arg_checkout_only args_checkout \<and> \<not> arg_force args_checkout
      \<and> split_comma (arg_table args_checkout) = [] @ ''t1'' # [''t2'']
      \<and> py_or (arg_database args_checkout) (cfg_database no_config) = Some ''db''"
    by (simp add: args_checkout_def no_config_def)
  from amended [where a = args_checkout and cfg = no_config and w = world_checkout
      and ?ts1.0 = "[]" and t = "''t1''" and ?ts2.0 = "[''t2'']" and ?w1.0 = world_checkout and e = "?e"
      and ?w2.0 = "(emit ?q world_checkout)\<lparr>replies := [ok_rows []]\<rparr>",
      THEN conjunct2, THEN conjunct2, THEN conjunct2] c1 c2
  have m: "main args_checkout no_config world_checkout =
      (Inl ?e, (emit ?q world_checkout)\<lparr>replies := [ok_rows []]\<rparr>)"
    by simp
  \<comment> \<open>after a confirmed delete: the fetch of the polling phase fails\<close>
  define v1 where "v1 = (emit (Post (search_query ''p'' (Some ''Path'') (Some ''db'') ''t1'' @ '' FORMAT JSON''))
      world_poll_fails)\<lparr>replies := [ok_text ''Ok.'', http_500, ok_rows []]\<rparr>"
  define v2 where "v2 = emit Input ((emit (Print (MatchesFound ''p'' 1 [PStr ''p.x''])) v1)\<lparr>answers := []\<rparr>)"
  define v3 where "v3 = emit (Print (DeleteOk ''source=db.t1 key=Path, prefix=p''))
      ((emit (Post (delete_query ''p'' (Some ''Path'') (Some ''db'') ''t1'' @ '' FORMAT JSON'')) v2)
         \<lparr>replies := [http_500, ok_rows []]\<rparr>)"
  define v4 where "v4 = (emit ?q v3)\<lparr>replies := [ok_rows []]\<rparr>"
  have g: "get_data ''p'' (Some ''Path'') (Some ''db'') ''t1'' world_poll_fails =
      (Inr (MatchesFound ''p'' 1 [PStr ''p.x''], Some [PStr ''p.x'']), v1)"
    by (simp add: v1_def get_data_def world_poll_fails_def script_def ok_rows_def execute_sql_data)
  have i: "input (emit (Print (MatchesFound ''p'' 1 [PStr ''p.x''])) v1) = (Inr [121], v2)"
    by (simp add: v2_def v1_def input_def world_poll_fails_def script_def emit_def)
  have l: "lower [121] \<in> set accepted"
    by (simp add: lower_def lower_cp_def accepted_def)
  have d: "delete_data ''p'' (Some ''Path'') (Some ''db'') ''t1'' v2 = (Inr (), v3)"
    by (simp add: v3_def delete_data_def execute_sql_text v2_def v1_def ok_text_def)
  have p0: "replies v3 = Reply ?r # [ok_rows []] \<and> \<not> resp_ok ?r \<and> today v3 = ''2020-02-02''"
    by (simp add: v3_def v2_def v1_def http_500_def world_poll_fails_def script_def)
  from amended [where w = v3 and r = "?r" and rs = "[ok_rows []]"
      and database = "Some ''db''" and table = "''t1''" and await_complete = False and pretty = True,
      THEN conjunct1] p0
  have p: "check_mutations (Some ''db'') ''t1'' False True v3 = (Inl ?e, v4)"
    by (simp add: v4_def)
  from amended [where prefix = "''p''" and key = "Some ''Path''" and database = "Some ''db''"
      and table = "''t1''" and w = world_poll_fails and message = "MatchesFound ''p'' 1 [PStr ''p.x'']"
      and ms = "[PStr ''p.x'']" and ?w1.0 = v1 and answer = "[121]" and ?w2.0 = v2 and ?w3.0 = v3
      and await_complete = False and ?w4.0 = v4
      and err = "QueryFailed (mutations_query (Some ''db'') ''t1'' ''2020-02-02'') 500 ''boom''",
      THEN conjunct2, THEN conjunct2, THEN conjunct1] g i l d p
  have r: "run ''p'' (Some ''Path'') (Some ''db'') ''t1'' False False world_poll_fails =
      (Inr (), emit (Print (ErrorText (QueryFailed (mutations_query (Some ''db'') ''t1'' ''2020-02-02'') 500 ''boom''))) v4)"
    by simp
  \<comment> \<open>the third fetch of a polling loop fails\<close>
  let ?p = "Response True 200 [] (Data [row_running])"
  have t0: "list_all keeps_polling [?p, ?p]
      \<and> replies world_third_poll_fails = map Reply [?p, ?p] @ Reply ?r # [ok_rows [row_done]]
      \<and> \<not> resp_ok ?r \<and> today world_third_poll_fails = ''2020-02-02''"
    by (simp add: keeps_polling_def mutation_status_def example_defs int_defs world_third_poll_fails_def)
  from amended [where w = world_third_poll_fails and r = "?r" and rs = "[ok_rows [row_done]]"
      and polls = "[?p, ?p]" and database = "Some ''db''" and table = "''t1''" and pretty = True,
      THEN conjunct2, THEN conjunct1] t0
  have tp: "fst (check_mutations (Some ''db'') ''t1'' True True world_third_poll_fails) = Inl ?e
      \<and> replies (snd (check_mutations (Some ''db'') ''t1'' True True world_third_poll_fails)) =
          [ok_rows [row_done]]"
    by simp
  from m r tp show ?thesis by (simp add: v4_def)
qed

section \<open>Properties of \<^verbatim>\<open>main\<close>\<close>

text \<open>
  C8, where it fails: \<^verbatim>\<open>--checkout-only\<close> together with \<^verbatim>\<open>--await-mutation-end\<close>. No
  error is raised; the status of the table is fetched once and printed, without waiting
  (the second reply is not requested).
\<close>

theorem checkout_only_with_await_is_accepted:
  "arg_checkout_only args_checkout_await \<and> arg_await_mutation_end args_checkout_await
   \<and> fst (main args_checkout_await no_config world_running_then_done) = Inr ()
   \<and> trace (snd (main args_checkout_await no_config world_running_then_done)) =
       [Post (mutations_query (Some ''db'') ''t'' ''2020-02-02'' @ '' FORMAT JSON''),
        Print (StatusHeader ''db'' ''t''), Print Rule, Print (StatusFull 1 0 0 1)]
   \<and> replies (snd (main args_checkout_await no_config world_running_then_done)) = [ok_rows [row_done]]"
  by (simp add: main_def Let_def args_checkout_await_def no_config_def world_running_then_done_def script_def ok_rows_def
        check_mutations_def execute_sql_data mutation_status_def row_running_def int_defs)

text \<open>
  C8, as the code has it. It is \<^verbatim>\<open>--force\<close> that excludes each of the two other flags:
  with \<^verbatim>\<open>--force\<close> and \<^verbatim>\<open>--checkout-only\<close>, or \<^verbatim>\<open>--force\<close> and
  \<^verbatim>\<open>--await-mutation-end\<close>, \<^verbatim>\<open>main\<close> raises before any request (the world is
  unchanged). \<^verbatim>\<open>--checkout-only\<close> without \<^verbatim>\<open>--force\<close> is accepted whatever
  \<^verbatim>\<open>--await-mutation-end\<close> is, and checks every table without waiting.
\<close>

theorem force_excludes_checkout_and_await:
  "(arg_force a \<and> (arg_checkout_only a \<or> arg_await_mutation_end a) \<longrightarrow>
      main a cfg w =
        (Inl (RuntimeError (if arg_table a = [] then TableRequired else FlagsConflict)), w))
   \<and> (arg_checkout_only a \<and> \<not> arg_force a \<and> arg_table a \<noteq> [] \<longrightarrow>
      main a cfg w =
        for_each (\<lambda>table. check_mutations (py_or (arg_database a) (cfg_database cfg)) table False False)
          (split_comma (arg_table a)) w)"
  by (auto simp: main_def Let_def split_comma_nonempty)

text \<open>\<^verbatim>\<open>--force\<close> with \<^verbatim>\<open>--await-mutation-end\<close>, and \<^verbatim>\<open>--checkout-only\<close> with it.\<close>

theorem force_excludes_checkout_and_await_witness:
  "arg_force args_force_await \<and> arg_await_mutation_end args_force_await
   \<and> main args_force_await no_config world_running_then_done = (Inl (RuntimeError FlagsConflict), world_running_then_done)
   \<and> arg_checkout_only args_checkout_await \<and> arg_await_mutation_end args_checkout_await
   \<and> main args_checkout_await no_config world_running_then_done =
       for_each (\<lambda>table. check_mutations (Some ''db'') table False False) [''t''] world_running_then_done"
proof -
  have 1: "arg_force args_force_await \<and> arg_await_mutation_end args_force_await
      \<and> arg_table args_force_await \<noteq> []"
    by (simp add: args_force_await_def)
  have 2: "arg_checkout_only args_checkout_await \<and> arg_await_mutation_end args_checkout_await \<and> \<not> arg_force args_checkout_await
      \<and> arg_table args_checkout_await \<noteq> [] \<and> split_comma (arg_table args_checkout_await) = [''t'']
      \<and> py_or (arg_database args_checkout_await) (cfg_database no_config) = Some ''db''"
    by (simp add: args_checkout_await_def no_config_def)
  from force_excludes_checkout_and_await [of args_force_await no_config world_running_then_done, THEN conjunct1] 1
  have 3: "main args_force_await no_config world_running_then_done = (Inl (RuntimeError FlagsConflict), world_running_then_done)"
    by simp
  from force_excludes_checkout_and_await [of args_checkout_await no_config world_running_then_done, THEN conjunct2] 2
  have 4: "main args_checkout_await no_config world_running_then_done =
       for_each (\<lambda>table. check_mutations (Some ''db'') table False False) [''t''] world_running_then_done"
    by simp
  from 1 2 3 4 show ?thesis by simp
qed

lemma and_then_unit: "and_then r (\<lambda>w. (Inr (), w)) = r"
  by (cases r) (auto simp: and_then_def split: sum.splits)

lemma execute_sql_no_arg_error:
  "fst (execute_sql q f w) \<noteq> Inl (RuntimeError PrefixRequired)"
  by (simp add: execute_sql_def Let_def split: list.splits reply.splits json_body.splits)

lemma keys_of_error: "keys_of key rows = Inl e \<Longrightarrow> e = KeyError"
  by (induction rows arbitrary: e) (auto split: option.splits sum.splits)

lemma in_progress_rows_error: "in_progress_rows data = Inl e \<Longrightarrow> e = TypeError \<or> e = ValueError"
proof (induction data)
  case Nil
  then show ?case by simp
next
  case (Cons i data)
  then show ?case
    by (cases "get i ''parts_to_do''") (auto split: sum.splits option.splits)
qed

lemma mutation_status_of_error:
  "mutation_status_of res = Inl e \<Longrightarrow> e = TypeError \<or> e = ValueError \<or> e = AttributeError"
  using in_progress_rows_error [of _ e]
  by (cases res) (auto simp: mutation_status_def split: sum.splits if_splits)

lemma select_keys_error: "select_keys key res = Inl e \<Longrightarrow> e = KeyError \<or> e = TypeError"
  by (cases res) (auto dest: keys_of_error split: if_splits)

lemma get_data_no_arg_error:
  "fst (get_data prefix key database table w) \<noteq> Inl (RuntimeError PrefixRequired)"
proof -
  obtain r w1 where e: "execute_sql (search_query prefix key database table) ''json'' w = (r, w1)"
    by (cases "execute_sql (search_query prefix key database table) ''json'' w")
  with execute_sql_no_arg_error [of "search_query prefix key database table" "''json''" w]
  have "r \<noteq> Inl (RuntimeError PrefixRequired)" by simp
  with e show ?thesis
    by (auto simp: get_data_def split: sum.splits dest: select_keys_error)
qed

lemma delete_data_no_arg_error:
  "fst (delete_data prefix key database table w) \<noteq> Inl (RuntimeError PrefixRequired)"
  using delete_data_cases [of prefix key database table w]
  by (auto simp: delete_data_def execute_sql_def Let_def split: list.splits reply.splits if_splits)

lemma await_loop_no_arg_error:
  "fst (await_loop q v w) \<noteq> Inl (RuntimeError PrefixRequired)"
proof (induction q v w rule: await_loop.induct)
  case (1 query in_progress total_n failed w)
  obtain r w1 where e: "execute_sql query ''json'' w = (r, w1)"
    by (cases "execute_sql query ''json'' w")
  with execute_sql_no_arg_error [of query "''json''" w]
  have n: "r \<noteq> Inl (RuntimeError PrefixRequired)" by simp
  show ?case
  proof (cases "in_progress \<noteq> 0 \<and> failed = 0")
    case False
    then show ?thesis by auto
  next
    case True
    show ?thesis
    proof (cases r)
      case (Inl x)
      with True e n show ?thesis by (subst await_loop.simps) simp
    next
      case (Inr result)
      show ?thesis
      proof (cases "mutation_status_of result")
        case (Inl x)
        with True e Inr mutation_status_of_error [OF Inl] show ?thesis
          by (subst await_loop.simps) auto
      next
        case s: (Inr y)
        obtain a b c d where y: "y = (a, b, c, d)" by (cases y)
        from "1.IH" [OF True e [symmetric] Inr s [unfolded y] refl refl refl] True e Inr s y
        show ?thesis by (subst await_loop.simps) simp
      qed
    qed
  qed
qed

lemma check_mutations_no_arg_error:
  "fst (check_mutations database table await_complete pretty w) \<noteq> Inl (RuntimeError PrefixRequired)"
proof -
  let ?q = "mutations_query database table (today w)"
  obtain r w1 where e: "execute_sql ?q ''json'' w = (r, w1)"
    by (cases "execute_sql ?q ''json'' w")
  with execute_sql_no_arg_error [of ?q "''json''" w]
  have n: "r \<noteq> Inl (RuntimeError PrefixRequired)" by simp
  show ?thesis
  proof (cases r)
    case (Inl x)
    with e n show ?thesis by (simp add: check_mutations_def)
  next
    case (Inr result)
    show ?thesis
    proof (cases "mutation_status_of result")
      case (Inl x)
      with e Inr mutation_status_of_error [OF Inl] show ?thesis
        by (auto simp: check_mutations_def)
    next
      case s: (Inr y)
      obtain a b c d where y: "y = (a, b, c, d)" by (cases y)
      obtain r2 w2 where l: "await_loop ?q (a, b, d) (emit (Print Waiting) w1) = (r2, w2)"
        by (cases "await_loop ?q (a, b, d) (emit (Print Waiting) w1)")
      with await_loop_no_arg_error [of ?q "(a, b, d)" "emit (Print Waiting) w1"]
      have "r2 \<noteq> Inl (RuntimeError PrefixRequired)" by simp
      with e Inr s y l show ?thesis
        by (cases r2) (auto simp: check_mutations_def Let_def split: prod.splits)
    qed
  qed
qed

lemma except_RuntimeError_no_arg_error:
  "fst r \<noteq> Inl (RuntimeError PrefixRequired) \<Longrightarrow>
   fst (except_RuntimeError r) \<noteq> Inl (RuntimeError PrefixRequired)"
  by (induction r rule: except_RuntimeError.induct) auto

lemma and_then_no_arg_error:
  "fst r \<noteq> Inl (RuntimeError PrefixRequired) \<Longrightarrow>
   (\<And>w. fst (f w) \<noteq> Inl (RuntimeError PrefixRequired)) \<Longrightarrow>
   fst (and_then r f) \<noteq> Inl (RuntimeError PrefixRequired)"
  by (cases r) (auto simp: and_then_def split: sum.splits)

lemma run_no_arg_error:
  "fst (run prefix key database table force_delete await_complete w) \<noteq> Inl (RuntimeError PrefixRequired)"
proof (cases force_delete)
  case True
  with run_force_shape [of prefix key database table await_complete w] show ?thesis by simp
next
  case False
  obtain r w1 where g: "get_data prefix key database table w = (r, w1)"
    by (cases "get_data prefix key database table w")
  with get_data_no_arg_error [of prefix key database table w]
  have n: "r \<noteq> Inl (RuntimeError PrefixRequired)" by simp
  have t: "fst (except_RuntimeError (and_then (delete_data prefix key database table w2)
              (check_mutations database table await_complete True))) \<noteq> Inl (RuntimeError PrefixRequired)"
    for w2
    by (intro except_RuntimeError_no_arg_error and_then_no_arg_error
          delete_data_no_arg_error check_mutations_no_arg_error)
  from False g n t show ?thesis
    by (auto simp: run_def input_def split: sum.splits option.splits list.splits)
qed

lemma for_each_no_arg_error:
  "(\<And>x w. fst (body x w) \<noteq> Inl (RuntimeError PrefixRequired)) \<Longrightarrow>
   fst (for_each body xs w) \<noteq> Inl (RuntimeError PrefixRequired)"
  by (induction xs arbitrary: w) (simp_all add: and_then_no_arg_error)

lemma main_no_prefix_error: "fst (main a cfg w) \<noteq> Inl (RuntimeError PrefixRequired)"
proof -
  have batch: "fst (and_then
        (for_each (\<lambda>prefix. for_each (\<lambda>table. run prefix key database table force aw) tables) prefixes w)
        (\<lambda>w1. (Inr (), g w1))) \<noteq> Inl (RuntimeError PrefixRequired)"
    for key database force aw tables prefixes g
    by (intro and_then_no_arg_error for_each_no_arg_error run_no_arg_error) simp
  have status: "fst (for_each (\<lambda>table. check_mutations database table False False) tables w)
      \<noteq> Inl (RuntimeError PrefixRequired)" for database tables
    by (intro for_each_no_arg_error check_mutations_no_arg_error)
  show ?thesis
    unfolding main_def Let_def
    using batch status by (simp add: split_comma_nonempty)
qed

lemma execute_sql_extends:
  "execute_sql q f w = (r, w1) \<Longrightarrow> trace w1 = trace w @ [Post (q @ '' FORMAT JSON'')]"
  using execute_sql_trace [of q f w] by simp

lemma await_loop_extends: "\<exists>evs. trace (snd (await_loop q v w)) = trace w @ evs"
proof (induction q v w rule: await_loop.induct)
  case (1 query in_progress total_n failed w)
  obtain r w1 where e: "execute_sql query ''json'' w = (r, w1)"
    by (cases "execute_sql query ''json'' w")
  note t = execute_sql_extends [OF e]
  show ?case
  proof (cases "in_progress \<noteq> 0 \<and> failed = 0")
    case False
    then show ?thesis by auto
  next
    case True
    show ?thesis
    proof (cases r)
      case (Inl x)
      with True e t show ?thesis by (subst await_loop.simps) simp
    next
      case (Inr result)
      show ?thesis
      proof (cases "mutation_status_of result")
        case (Inl x)
        with True e t Inr show ?thesis by (subst await_loop.simps) simp
      next
        case s: (Inr y)
        obtain a b c d where y: "y = (a, b, c, d)" by (cases y)
        from "1.IH" [OF True e [symmetric] Inr s [unfolded y] refl refl refl] True e t Inr s y
        show ?thesis by (subst await_loop.simps) auto
      qed
    qed
  qed
qed

lemma check_mutations_extends:
  "\<exists>evs. trace (snd (check_mutations database table await_complete pretty w)) = trace w @ evs"
proof -
  let ?q = "mutations_query database table (today w)"
  obtain r w1 where e: "execute_sql ?q ''json'' w = (r, w1)"
    by (cases "execute_sql ?q ''json'' w")
  note t = execute_sql_extends [OF e]
  show ?thesis
  proof (cases r)
    case (Inl x)
    with e t show ?thesis by (simp add: check_mutations_def)
  next
    case (Inr result)
    show ?thesis
    proof (cases "mutation_status_of result")
      case (Inl x)
      with e t Inr show ?thesis by (simp add: check_mutations_def)
    next
      case s: (Inr y)
      obtain a b c d where y: "y = (a, b, c, d)" by (cases y)
      obtain r2 w2 where l: "await_loop ?q (a, b, d) (emit (Print Waiting) w1) = (r2, w2)"
        by (cases "await_loop ?q (a, b, d) (emit (Print Waiting) w1)")
      with await_loop_extends [of ?q "(a, b, d)" "emit (Print Waiting) w1"] t
      obtain evs where "trace w2 = trace w @ evs" by auto
      with e t Inr s y l show ?thesis
        by (cases r2) (auto simp: check_mutations_def Let_def split: prod.splits)
    qed
  qed
qed

lemma delete_data_extends:
  "\<exists>evs. trace (snd (delete_data prefix key database table w)) = trace w @ evs"
  using delete_data_cases [of prefix key database table w] by auto

lemma run_starts_with_search:
  "\<exists>rest. events_since w (snd (run prefix key database table False await_complete w)) =
     Post (search_query prefix key database table @ '' FORMAT JSON'') # rest"
proof -
  let ?q = "search_query prefix key database table"
  obtain r w1 where e: "execute_sql ?q ''json'' w = (r, w1)"
    by (cases "execute_sql ?q ''json'' w")
  note t = execute_sql_extends [OF e]
  have tail: "\<exists>evs. trace (snd (except_RuntimeError (and_then (delete_data prefix key database table w2)
              (check_mutations database table await_complete True)))) = trace w2 @ evs" for w2
  proof -
    obtain r3 w3 where d: "delete_data prefix key database table w2 = (r3, w3)"
      by (cases "delete_data prefix key database table w2")
    with delete_data_extends [of prefix key database table w2]
    obtain evs where 3: "trace w3 = trace w2 @ evs" by auto
    obtain r4 w4 where c: "check_mutations database table await_complete True w3 = (r4, w4)"
      by (cases "check_mutations database table await_complete True w3")
    with check_mutations_extends [of database table await_complete True w3] 3
    obtain evs' where 4: "trace w4 = trace w2 @ evs'" by auto
    show ?thesis
    proof (cases r3)
      case (Inl x)
      with d 3 show ?thesis by (cases x) auto
    next
      case (Inr u)
      with d c 4 show ?thesis
        by (cases "(r4, w4)" rule: except_RuntimeError.cases) auto
    qed
  qed
  show ?thesis
  proof (cases r)
    case (Inl x)
    with e t show ?thesis by (simp add: run_def get_data_def events_since_def)
  next
    case (Inr res)
    show ?thesis
    proof (cases "select_keys key res")
      case (Inl x)
      with e t Inr show ?thesis by (simp add: run_def get_data_def events_since_def)
    next
      case k: (Inr result)
      show ?thesis
      proof (cases "result = []")
        case True
        with e t Inr k show ?thesis by (simp add: run_def get_data_def events_since_def)
      next
        case False
        let ?w2 = "\<lambda>rest. emit Input (emit (Print (MatchesFound prefix (length result) result)) w1
                      \<lparr>answers := rest\<rparr>)"
        from tail [of "?w2 (tl (answers w1))"] t
        obtain evs where "trace (snd (except_RuntimeError (and_then
              (delete_data prefix key database table (?w2 (tl (answers w1))))
              (check_mutations database table await_complete True)))) =
            trace w @ Post (?q @ '' FORMAT JSON'') # Print (MatchesFound prefix (length result) result) # Input # evs"
          by auto
        with False e t Inr k show ?thesis
          by (auto simp: run_def get_data_def events_since_def input_def split: list.splits)
      qed
    qed
  qed
qed

lemma for_each_Nil_fun: "for_each body [] = (\<lambda>w. (Inr (), w))"
  by (rule ext) simp

lemma main_default_prefix:
  assumes "arg_prefix a = []" and "arg_table a \<noteq> []" and "\<not> arg_checkout_only a" and "\<not> arg_force a"
  shows "main a cfg w =
     for_each (\<lambda>table. run [] (py_or (arg_key a) (cfg_match_key cfg))
                 (py_or (arg_database a) (cfg_database cfg)) table False (arg_await_mutation_end a))
       (split_comma (arg_table a)) w"
  using assms by (simp add: main_def Let_def for_each_Nil_fun and_then_unit)

lemma main_forced:
  assumes "arg_table a \<noteq> []" and "arg_force a" and "\<not> arg_checkout_only a"
    and "\<not> arg_await_mutation_end a"
  shows "main a cfg w =
     and_then
       (for_each (\<lambda>prefix. for_each
           (\<lambda>table. run prefix (py_or (arg_key a) (cfg_match_key cfg))
                      (py_or (arg_database a) (cfg_database cfg)) table True False)
           (split_comma (arg_table a)))
          (split_comma (arg_prefix a)) w)
       (\<lambda>w1. (Inr (), emit (Print ForceHint) w1))"
  using assms by (simp add: main_def Let_def split_comma_nonempty)

text \<open>
  C9, where it fails: the default prefix with \<^verbatim>\<open>--force\<close>. \<^verbatim>\<open>main\<close> sends no search: its
  only request is the delete statement with the regex \<^verbatim>\<open>'^'\<close>.
\<close>

theorem forced_default_prefix_deletes_without_search:
  "arg_prefix args_force_default_prefix = [] \<and> arg_force args_force_default_prefix
   \<and> fst (main args_force_default_prefix no_config world_forced_delete_ok) = Inr ()
   \<and> trace (snd (main args_force_default_prefix no_config world_forced_delete_ok)) =
       [Post (''ALTER TABLE db.t DELETE WHERE match(Path, '' @ [CHR 0x27, CHR ''^'', CHR 0x27]
              @ '') FORMAT JSON''),
        Print (DeleteOk ''source=db.t key=Path, prefix=''),
        Print (StartedMutation ''Path'' [] ''db'' ''t''),
        Print ForceHint]
   \<and> replies (snd (main args_force_default_prefix no_config world_forced_delete_ok)) = [ok_rows []]"
  by (simp add: main_def Let_def args_force_default_prefix_def no_config_def world_forced_delete_ok_def
        script_def ok_text_def run_def delete_data_def execute_sql_text delete_query_def quote_def)

text \<open>
  C9, as the code has it. \<^verbatim>\<open>split(",")\<close> never returns the empty list, so \<^verbatim>\<open>main\<close> never
  raises the \<^verbatim>\<open>Prefix required\<close> error. With the default prefix (the empty string) and
  arguments that pass the two other checks of \<^verbatim>\<open>main\<close> (a table is given, and
  \<^verbatim>\<open>--force\<close> comes with neither \<^verbatim>\<open>--checkout-only\<close> nor \<^verbatim>\<open>--await-mutation-end\<close>), the
  workflow goes on with the prefix \<^verbatim>\<open>""\<close>. Without \<^verbatim>\<open>--force\<close> and \<^verbatim>\<open>--checkout-only\<close>,
  \<^verbatim>\<open>main\<close> runs the workflow on every table; the search statement then ends in
  \<^verbatim>\<open>match(key, '^')\<close>, and it is the first thing \<^verbatim>\<open>run\<close> sends. With \<^verbatim>\<open>--force\<close>, \<^verbatim>\<open>run\<close>
  sends one request, the delete statement, which ends in \<^verbatim>\<open>match(key, '^')\<close>, and no
  search. With \<^verbatim>\<open>--checkout-only\<close> the prefix is not used.
\<close>

theorem prefix_required_unreachable:
  "split_comma s \<noteq> []
   \<and> fst (main a cfg w) \<noteq> Inl (RuntimeError PrefixRequired)
   \<and> (arg_prefix a = [] \<and> arg_table a \<noteq> [] \<and> \<not> arg_checkout_only a \<and> \<not> arg_force a \<longrightarrow>
        main a cfg w =
          for_each (\<lambda>table. run [] (py_or (arg_key a) (cfg_match_key cfg))
                      (py_or (arg_database a) (cfg_database cfg)) table False (arg_await_mutation_end a))
            (split_comma (arg_table a)) w)
   \<and> search_query [] key database table =
        ''SELECT DISTINCT '' @ fmt key @ '' FROM '' @ fmt database @ ''.'' @ table @
        '' WHERE match('' @ fmt key @ '', '' @ [CHR 0x27, CHR ''^'', CHR 0x27] @ '')''
   \<and> (\<exists>rest. events_since w (snd (run prefix key database table False await_complete w)) =
         Post (search_query prefix key database table @ '' FORMAT JSON'') # rest)
   \<and> (arg_prefix a = [] \<and> arg_table a \<noteq> [] \<and> arg_force a \<and> \<not> arg_checkout_only a
        \<and> \<not> arg_await_mutation_end a \<longrightarrow>
        main a cfg w =
          and_then
            (for_each (\<lambda>table. run [] (py_or (arg_key a) (cfg_match_key cfg))
                        (py_or (arg_database a) (cfg_database cfg)) table True False)
               (split_comma (arg_table a)) w)
            (\<lambda>w1. (Inr (), emit (Print ForceHint) w1)))
   \<and> filter is_post (events_since w (snd (run prefix key database table True await_complete w))) =
        [Post (delete_query prefix key database table @ '' FORMAT JSON'')]
   \<and> delete_query [] key database table =
        ''ALTER TABLE '' @ fmt database @ ''.'' @ table @
        '' DELETE WHERE match('' @ fmt key @ '', '' @ [CHR 0x27, CHR ''^'', CHR 0x27] @ '')''
   \<and> (arg_table a \<noteq> [] \<and> arg_checkout_only a \<and> \<not> arg_force a \<longrightarrow>
        main a cfg w =
          for_each (\<lambda>table. check_mutations (py_or (arg_database a) (cfg_database cfg)) table False False)
            (split_comma (arg_table a)) w)"
  using split_comma_nonempty [of s] main_no_prefix_error [of a cfg w] main_default_prefix [of a cfg w]
    run_starts_with_search [of w prefix key database table await_complete]
    main_forced [of a cfg w] main_checkout_only [of a cfg w]
    run_force_shape [of prefix key database table await_complete w]
  by (simp add: search_query_def delete_query_def quote_def for_each_Nil_fun and_then_unit)

text \<open>The default prefix and one table: a server that finds nothing, and a forced delete.\<close>

theorem prefix_required_unreachable_witness:
  "split_comma [] = [[]]
   \<and> arg_prefix args_default_prefix = []
   \<and> fst (main args_default_prefix no_config world_default_prefix) = Inr ()
   \<and> trace (snd (main args_default_prefix no_config world_default_prefix)) =
       [Post (''SELECT DISTINCT Path FROM db.t WHERE match(Path, '' @ [CHR 0x27, CHR ''^'', CHR 0x27]
              @ '') FORMAT JSON''),
        Print (NoMatches [])]
   \<and> arg_prefix args_force_default_prefix = [] \<and> arg_force args_force_default_prefix
   \<and> main args_force_default_prefix no_config world_forced_delete_ok =
       and_then
         (for_each (\<lambda>table. run [] (Some ''Path'') (Some ''db'') table True False) [''t'']
            world_forced_delete_ok)
         (\<lambda>w1. (Inr (), emit (Print ForceHint) w1))"
proof -
  have h: "arg_prefix args_default_prefix = [] \<and> arg_table args_default_prefix \<noteq> []
      \<and> \<not> arg_checkout_only args_default_prefix \<and> \<not> arg_force args_default_prefix"
    by (simp add: args_default_prefix_def)
  from prefix_required_unreachable [of _ args_default_prefix no_config world_default_prefix,
      THEN conjunct2, THEN conjunct2, THEN conjunct1] h
  have m: "main args_default_prefix no_config world_default_prefix =
      for_each (\<lambda>table. run [] (Some ''Path'') (Some ''db'') table False False) [''t''] world_default_prefix"
    by (simp add: args_default_prefix_def no_config_def)
  have r: "run [] (Some ''Path'') (Some ''db'') ''t'' False False world_default_prefix =
      (Inr (), \<lparr>replies = [], answers = [], today = ''2020-02-02'',
         trace = [Post (search_query [] (Some ''Path'') (Some ''db'') ''t'' @ '' FORMAT JSON''),
                  Print (NoMatches [])]\<rparr>)"
    by (simp add: run_def get_data_def execute_sql_data world_default_prefix_def script_def ok_rows_def
          emit_def)
  have g: "arg_prefix args_force_default_prefix = [] \<and> arg_table args_force_default_prefix \<noteq> []
      \<and> arg_force args_force_default_prefix \<and> \<not> arg_checkout_only args_force_default_prefix
      \<and> \<not> arg_await_mutation_end args_force_default_prefix"
    by (simp add: args_force_default_prefix_def)
  from prefix_required_unreachable [of _ args_force_default_prefix no_config world_forced_delete_ok,
      THEN conjunct2, THEN conjunct2, THEN conjunct2, THEN conjunct2, THEN conjunct2, THEN conjunct1] g
  have f: "main args_force_default_prefix no_config world_forced_delete_ok =
       and_then
         (for_each (\<lambda>table. run [] (Some ''Path'') (Some ''db'') table True False) [''t'']
            world_forced_delete_ok)
         (\<lambda>w1. (Inr (), emit (Print ForceHint) w1))"
    by (simp add: args_force_default_prefix_def no_config_def)
  from m r h g f show ?thesis by (simp add: search_query_def quote_def)
qed

end
